theory Spec2Isabelle
  imports Main
begin

section \<open>Data model of the Vendure client (src/unnamed/part_000)\<close>

text \<open>
  Strings are \<open>string\<close> (a list of 8-bit characters; text outside ASCII is its UTF-8
  bytes). A field typed \<open>T | null\<close> or declared optional is \<open>T option\<close>: both \<open>null\<close>
  and \<open>undefined\<close> are \<open>None\<close>. Quantities are GraphQL \<open>Int\<close> values held in
  JavaScript numbers; they are modelled as \<open>int\<close>.
\<close>

datatype OrderState =
  Created | AddingItems | ArrangingPayment | PaymentAuthorized | PaymentSettled
  | PartiallyFulfilled | Fulfilled | PartiallyShipped | Shipped | PartiallyDelivered
  | Delivered | Cancelled

record ProductVariant =
  variantId_pv :: string
  sku_pv :: "string option"
  name_pv :: string

record OrderLineSummary =
  id_line :: string
  quantity :: int
  fulfilledQuantity :: int
  productVariant :: ProductVariant

record FulfillmentSummary =
  id_ful :: string
  state_ful :: string
  trackingCode_ful :: "string option"

record ShippingAddress =
  fullName :: "string option"
  company :: "string option"
  streetLine1 :: "string option"
  streetLine2 :: "string option"
  city :: "string option"
  province :: "string option"
  provinceCode :: "string option"
  postalCode :: "string option"
  countryCode :: "string option"
  phoneNumber :: "string option"

record Customer =
  emailAddress :: "string option"

record OrderSummary =
  id_order :: string
  code :: string
  state_order :: OrderState
  createdAt :: string
  fulfillments :: "FulfillmentSummary list"
  lines :: "OrderLineSummary list"
  shippingAddress :: "ShippingAddress option"
  customer :: "Customer option"

record OutstandingLine =
  orderLineId :: string
  quantity_out :: int
  sku_out :: "string option"
  variantName :: string

subsection \<open>getOutstandingFulfillmentLines (part_000, lines 870-885)\<close>

text \<open>
  The source maps every line to an \<open>OutstandingLine\<close> or \<open>null\<close> and then filters the
  \<open>null\<close>s out; the model keeps the two passes.
\<close>

definition outstandingOrNull :: "OrderLineSummary \<Rightarrow> OutstandingLine option" where
  "outstandingOrNull line =
     (let outstanding = quantity line - fulfilledQuantity line
      in if outstanding \<le> 0 then None
         else Some \<lparr> orderLineId = id_line line,
                     quantity_out = outstanding,
                     sku_out = sku_pv (productVariant line),
                     variantName = name_pv (productVariant line) \<rparr>)"

definition getOutstandingFulfillmentLines :: "OrderSummary \<Rightarrow> OutstandingLine list" where
  "getOutstandingFulfillmentLines order =
     map the (filter (\<lambda>l. l \<noteq> None) (map outstandingOrNull (lines order)))"

section \<open>JavaScript helpers\<close>

text \<open>
  \<open>Boolean(s)\<close> for an optional string: \<open>undefined\<close>, \<open>null\<close> and the empty string are
  falsy, every other string is truthy.
\<close>

fun truthy :: "string option \<Rightarrow> bool" where
  "truthy None = False"
| "truthy (Some s) = (s \<noteq> [])"

text \<open>
  Case folding on the ASCII letters. The patterns matched below are ASCII, and neither
  \<open>toLowerCase\<close> nor a non-unicode \<open>/i\<close> regular expression lets a character outside
  ASCII stand for one of their letters.
\<close>

definition toLowerCase_char :: "char \<Rightarrow> char" where
  "toLowerCase_char c =
     (case map_of (zip ''ABCDEFGHIJKLMNOPQRSTUVWXYZ'' ''abcdefghijklmnopqrstuvwxyz'') c of
        None \<Rightarrow> c | Some d \<Rightarrow> d)"

definition toLowerCase :: "string \<Rightarrow> string" where
  "toLowerCase s = map toLowerCase_char s"

fun startsWith :: "string \<Rightarrow> string \<Rightarrow> bool" where
  "startsWith s [] = True"
| "startsWith [] (p # ps) = False"
| "startsWith (c # cs) (p # ps) = (c = p \<and> startsWith cs ps)"

fun includes_str :: "string \<Rightarrow> string \<Rightarrow> bool" where
  "includes_str [] pat = (pat = [])"
| "includes_str (c # cs) pat = (startsWith (c # cs) pat \<or> includes_str cs pat)"

text \<open>\<open>/pat/i.test(s)\<close> for a pattern of literal characters: a case-insensitive substring test.\<close>

definition regex_test_i :: "string \<Rightarrow> string \<Rightarrow> bool" where
  "regex_test_i pat s = includes_str (toLowerCase s) (toLowerCase pat)"

fun join_str :: "string \<Rightarrow> string list \<Rightarrow> string" where
  "join_str sep [] = []"
| "join_str sep [x] = x"
| "join_str sep (x # y # ys) = x @ sep @ join_str sep (y # ys)"

text \<open>The separator of the source's \<open>join\<close>: a space, the UTF-8 bytes of U+2014, a space.\<close>

definition em_dash_sep :: string where
  "em_dash_sep = [CHR '' '', CHR 0xE2, CHR 0x80, CHR 0x94, CHR '' '']"

text \<open>A text between double quotes.\<close>

definition quoted :: "string \<Rightarrow> string" where
  "quoted s = CHR 0x22 # s @ [CHR 0x22]"

text \<open>
  White space, as \<open>trim\<close> and \<open>\s\<close> know it: tab, line feed, vertical tab, form feed,
  carriage return, space, and the characters U+00A0, U+1680, U+2000 to U+200A, U+2028,
  U+2029, U+202F, U+205F, U+3000 and U+FEFF, each given by its UTF-8 bytes.
\<close>

definition whiteSpace :: "string list" where
  "whiteSpace =
     [[CHR 0x09], [CHR 0x0A], [CHR 0x0B], [CHR 0x0C], [CHR 0x0D], [CHR 0x20],
      [CHR 0xC2, CHR 0xA0], [CHR 0xE1, CHR 0x9A, CHR 0x80],
      [CHR 0xE2, CHR 0x80, CHR 0x80], [CHR 0xE2, CHR 0x80, CHR 0x81],
      [CHR 0xE2, CHR 0x80, CHR 0x82], [CHR 0xE2, CHR 0x80, CHR 0x83],
      [CHR 0xE2, CHR 0x80, CHR 0x84], [CHR 0xE2, CHR 0x80, CHR 0x85],
      [CHR 0xE2, CHR 0x80, CHR 0x86], [CHR 0xE2, CHR 0x80, CHR 0x87],
      [CHR 0xE2, CHR 0x80, CHR 0x88], [CHR 0xE2, CHR 0x80, CHR 0x89],
      [CHR 0xE2, CHR 0x80, CHR 0x8A], [CHR 0xE2, CHR 0x80, CHR 0xA8],
      [CHR 0xE2, CHR 0x80, CHR 0xA9], [CHR 0xE2, CHR 0x80, CHR 0xAF],
      [CHR 0xE2, CHR 0x81, CHR 0x9F], [CHR 0xE3, CHR 0x80, CHR 0x80],
      [CHR 0xEF, CHR 0xBB, CHR 0xBF]]"

text \<open>The number of bytes of the white-space character a text starts with, 0 when it starts with none.\<close>

definition spaceLength :: "string \<Rightarrow> nat" where
  "spaceLength s = (case find (startsWith s) whiteSpace of None \<Rightarrow> 0 | Some w \<Rightarrow> length w)"

text \<open>
  For every byte of a text, whether it belongs to a white-space character; \<open>k\<close> counts
  the bytes still to come of the character being read.
\<close>

fun spaceMask :: "nat \<Rightarrow> string \<Rightarrow> bool list" where
  "spaceMask k [] = []"
| "spaceMask (Suc k) (c # cs) = True # spaceMask k cs"
| "spaceMask 0 (c # cs) =
     (if 0 < spaceLength (c # cs) then True # spaceMask (spaceLength (c # cs) - 1) cs
      else False # spaceMask 0 cs)"

text \<open>\<open>trim\<close>: the text without the white space at its two ends.\<close>

definition trim :: "string \<Rightarrow> string" where
  "trim s = map fst (rev (dropWhile snd (rev (dropWhile snd (zip s (spaceMask 0 s))))))"

text \<open>
  The words of a text, separated by runs of white space. On a trimmed, non-empty text
  they are what \<open>split(/\s+/)\<close> returns; on any text they are what
  \<open>split(/\s+/).filter(Boolean)\<close> returns.
\<close>

fun words_from :: "string \<Rightarrow> (char \<times> bool) list \<Rightarrow> string list" where
  "words_from cur [] = (if cur = [] then [] else [cur])"
| "words_from cur ((c, space) # cs) =
     (if space then (if cur = [] then words_from [] cs else cur # words_from [] cs)
      else words_from (cur @ [c]) cs)"

definition splitWhitespace :: "string \<Rightarrow> string list" where
  "splitWhitespace s = words_from [] (zip s (spaceMask 0 s))"

text \<open>
  What \<open>JSON.parse\<close> followed by the cast to a record type yields for a text: it throws
  (the text is not JSON), it returns \<open>null\<close>, or it returns a value whose fields are read
  as those of the record (a field that is missing, or \<open>null\<close>, is \<open>None\<close>).
\<close>

datatype 'a parsed = ParseThrows | ParsedNull | Parsed 'a

datatype error = Error string | RangeError string | TypeError string

section \<open>The Order System as seen by the client\<close>

record LineInput =
  orderLineId_in :: string
  quantity_in :: int

text \<open>The argument of \<open>VendureClient.createFulfillment\<close> (part_000, lines 667-674).\<close>

record CreateFulfillmentArgs =
  orderId :: string
  lines_arg :: "LineInput list"
  handlerCode :: string
  method_arg :: "string option"
  trackingCode_arg :: "string option"
  customFields :: "(string \<times> string) list option"

text \<open>The \<open>input\<close> variable of the modern mutation \<open>createFulfillment\<close>.\<close>

record CreateFulfillmentInput =
  orderId_in :: string
  lines_in :: "LineInput list"
  handlerCode_in :: string
  method_in :: "string option"
  trackingCode_in :: "string option"
  customFields_in :: "(string \<times> string) list option"

text \<open>The \<open>input\<close> variable of the legacy mutation \<open>addFulfillmentToOrder\<close>.\<close>

record HandlerInput =
  code_h :: string
  arguments_h :: "(string \<times> string) list"

record FulfillOrderInput =
  lines_leg :: "LineInput list"
  handler_leg :: HandlerInput
  customFields_leg :: "(string \<times> string) list option"

text \<open>
  \<open>FulfillmentUnion\<close>: the discriminant \<open>__typename === 'Fulfillment'\<close> is the constructor
  \<open>FulfillmentSuccess\<close> (id, state, method); any other type name is a \<open>FulfillmentError\<close>
  (type name, message, transitionError, errorCode).
\<close>

datatype FulfillmentUnion =
  FulfillmentSuccess string string "string option"
  | FulfillmentError string "string option" "string option" "string option"

datatype CreateFulfillmentResult =
  CreateSuccess string string "string option"
  | CreateFailure string

text \<open>
  The reply to \<open>transitionFulfillmentToState\<close> and \<open>updateFulfillment\<close>: type name,
  message, transitionError.
\<close>

record MutationReply =
  typename_r :: string
  message_r :: "string option"
  transitionError_r :: "string option"

record RawOrderLine =
  id_raw :: string
  quantity_raw :: int
  productVariant_raw :: ProductVariant
  fulfillmentLines_raw :: "int option list option"

record RawOrder =
  id_ro :: string
  code_ro :: string
  state_ro :: OrderState
  createdAt_ro :: string
  fulfillments_ro :: "FulfillmentSummary list"
  lines_ro :: "RawOrderLine list"
  shippingAddress_ro :: "ShippingAddress option"
  customer_ro :: "Customer option"

datatype gql_request =
  IntrospectMutations
  | CreateFulfillmentReq CreateFulfillmentInput
  | AddFulfillmentToOrderReq FulfillOrderInput
  | TransitionFulfillmentToStateReq string "string option"
  | UpdateFulfillmentTrackingReq string "string option" "string option"
  | OrderByCodeReq string
  | OrdersToFulfillReq int

text \<open>
  The backend behind \<open>VendureClient.graphql\<close> (part_000, lines 499-523) and \<open>login\<close>: one
  reply function per operation over a state \<open>'w\<close> of the remote system. \<open>Inl e\<close> is the
  exception \<open>graphql\<close> throws (a status that is not ok, a GraphQL \<open>errors\<close> array, no
  \<open>data\<close>); \<open>Inr d\<close> is the \<open>data\<close> it returns. The reply to the introspection query is
  the list of mutation field names, \<open>None\<close> when \<open>mutationType\<close> or \<open>fields\<close> is missing.
\<close>

record 'w backend =
  introspect_reply :: "'w \<Rightarrow> (error + string list option) \<times> 'w"
  createFulfillment_reply :: "CreateFulfillmentInput \<Rightarrow> 'w \<Rightarrow> (error + FulfillmentUnion) \<times> 'w"
  addFulfillmentToOrder_reply :: "FulfillOrderInput \<Rightarrow> 'w \<Rightarrow> (error + FulfillmentUnion) \<times> 'w"
  transition_reply :: "string \<Rightarrow> string option \<Rightarrow> 'w \<Rightarrow> (error + MutationReply) \<times> 'w"
  updateTracking_reply :: "string \<Rightarrow> string option \<Rightarrow> string option \<Rightarrow> 'w \<Rightarrow> (error + MutationReply) \<times> 'w"
  orderByCode_reply :: "string \<Rightarrow> 'w \<Rightarrow> (error + RawOrder option) \<times> 'w"
  orders_reply :: "int \<Rightarrow> 'w \<Rightarrow> (error + RawOrder list) \<times> 'w"
  login_reply :: "string \<Rightarrow> string \<Rightarrow> 'w \<Rightarrow> (error + unit) \<times> 'w"

section \<open>The Fulfillment Partner client (src/src/lib/printify-client.ts)\<close>

text \<open>
  A line item's \<open>productId\<close> and \<open>variantId\<close> are \<open>None\<close> when the value read from the
  mapping has no such field (see \<open>js_get\<close> below).
\<close>

record PrintifyLineItemInput =
  productId :: "int option"
  variantId :: "int option"
  quantity_li :: int
  metadata_li :: "(string \<times> string) list option"

record PrintifyAddressInput =
  first_name :: string
  last_name :: string
  email :: string
  phone :: "string option"
  country :: string
  region :: "string option"
  address1 :: string
  address2 :: "string option"
  city_to :: string
  zip_to :: string

record CreatePrintifyOrderInput =
  external_id :: string
  label :: "string option"
  line_items :: "PrintifyLineItemInput list"
  shipping_method :: "int option"
  send_shipping_notification :: bool
  address_to :: PrintifyAddressInput
  metadata :: "(string \<times> string) list"

record PrintifyOrderResponse =
  id_po :: string
  status_po :: string

section \<open>Effects\<close>

text \<open>
  Every handler runs sequentially against the remote systems. A run threads a state
  \<open>(w, trace)\<close>: \<open>w\<close> is the state of the remote systems and \<open>trace\<close> lists, oldest
  first, the requests sent and the notifications posted. The text of a notification is
  abstracted to a \<open>notice\<close>, one constructor per \<open>reporter.notify\<close> call of the source.
\<close>

datatype notice =
  WebhookRejected
  | WebhookOrderNotFound string
  | WebhookProcessed bool string "string option" "string option"
  | WebhookFailed string
  | LibWebhookRejected
  | LibMissingExternalId
  | LibOrderNotFound string
  | LibNoFulfillment string
  | LibDryRun string "string option"
  | LibTrackingUpdated string "string option"
  | LibTransitioned string string
  | JobStarting
  | JobUnsupported
  | JobNoOrders
  | JobPrintifyCreated string string string
  | JobPrintifyFailed string string
  | JobOrderSkipped string
  | JobOrderFailed string string
  | JobOrderFulfilled string string string
  | JobCompletedDryRun "string list"
  | JobCompleted int "(string \<times> string) list"
  | JobFailed string
  | RunStarting
  | RunSkipOrder string
  | RunMissingMapping string "string list"
  | RunCreatePrintify string
  | RunPrintifyCreated string string
  | RunDryRun string
  | RunCreateVendure string
  | RunVendureCreated string string string
  | RunOrderError string string
  | RunCompleted
  | RunFailed string

datatype effect =
  GraphQL gql_request
  | Login string string
  | PrintifyCreateOrder CreatePrintifyOrderInput
  | Notify notice

type_synonym 'w cstate = "'w \<times> effect list"

text \<open>
  \<open>TelegramReporter.notify\<close> (part_000, lines 54-68) never throws: \<open>postMessage\<close> catches
  every failure of the delivery. It only adds to the trace.
\<close>

definition notify :: "notice \<Rightarrow> 'w cstate \<Rightarrow> 'w cstate" where
  "notify n s = (fst s, snd s @ [Notify n])"

text \<open>
  \<open>PrintifyClient.createOrder\<close>: the reply (of the partner, or the mocked one, whose id
  is read from the clock) comes from the environment.
\<close>

definition printifyCreateOrder ::
  "(CreatePrintifyOrderInput \<Rightarrow> 'w \<Rightarrow> (error + PrintifyOrderResponse) \<times> 'w) \<Rightarrow>
   CreatePrintifyOrderInput \<Rightarrow> 'w cstate \<Rightarrow> (error + PrintifyOrderResponse) \<times> 'w cstate" where
  "printifyCreateOrder printify inp s =
     (case printify inp (fst s) of (r, w') \<Rightarrow> (r, (w', snd s @ [PrintifyCreateOrder inp])))"

section \<open>VendureClient (part_000)\<close>

definition graphql_introspect :: "'w backend \<Rightarrow> 'w cstate \<Rightarrow> (error + string list option) \<times> 'w cstate" where
  "graphql_introspect be s =
     (case introspect_reply be (fst s) of (r, w') \<Rightarrow> (r, (w', snd s @ [GraphQL IntrospectMutations])))"

definition graphql_createFulfillment ::
  "'w backend \<Rightarrow> CreateFulfillmentInput \<Rightarrow> 'w cstate \<Rightarrow> (error + FulfillmentUnion) \<times> 'w cstate" where
  "graphql_createFulfillment be inp s =
     (case createFulfillment_reply be inp (fst s) of
        (r, w') \<Rightarrow> (r, (w', snd s @ [GraphQL (CreateFulfillmentReq inp)])))"

definition graphql_addFulfillmentToOrder ::
  "'w backend \<Rightarrow> FulfillOrderInput \<Rightarrow> 'w cstate \<Rightarrow> (error + FulfillmentUnion) \<times> 'w cstate" where
  "graphql_addFulfillmentToOrder be inp s =
     (case addFulfillmentToOrder_reply be inp (fst s) of
        (r, w') \<Rightarrow> (r, (w', snd s @ [GraphQL (AddFulfillmentToOrderReq inp)])))"

definition graphql_transition ::
  "'w backend \<Rightarrow> string \<Rightarrow> string option \<Rightarrow> 'w cstate \<Rightarrow> (error + MutationReply) \<times> 'w cstate" where
  "graphql_transition be fid st s =
     (case transition_reply be fid st (fst s) of
        (r, w') \<Rightarrow> (r, (w', snd s @ [GraphQL (TransitionFulfillmentToStateReq fid st)])))"

definition graphql_updateTracking ::
  "'w backend \<Rightarrow> string \<Rightarrow> string option \<Rightarrow> string option \<Rightarrow> 'w cstate \<Rightarrow>
   (error + MutationReply) \<times> 'w cstate" where
  "graphql_updateTracking be fid tc m s =
     (case updateTracking_reply be fid tc m (fst s) of
        (r, w') \<Rightarrow> (r, (w', snd s @ [GraphQL (UpdateFulfillmentTrackingReq fid tc m)])))"

definition graphql_orderByCode ::
  "'w backend \<Rightarrow> string \<Rightarrow> 'w cstate \<Rightarrow> (error + RawOrder option) \<times> 'w cstate" where
  "graphql_orderByCode be c s =
     (case orderByCode_reply be c (fst s) of
        (r, w') \<Rightarrow> (r, (w', snd s @ [GraphQL (OrderByCodeReq c)])))"

definition graphql_orders ::
  "'w backend \<Rightarrow> int \<Rightarrow> 'w cstate \<Rightarrow> (error + RawOrder list) \<times> 'w cstate" where
  "graphql_orders be n s =
     (case orders_reply be n (fst s) of
        (r, w') \<Rightarrow> (r, (w', snd s @ [GraphQL (OrdersToFulfillReq n)])))"

text \<open>\<open>login\<close> (lines 525-550) returns nothing or throws.\<close>

definition login :: "'w backend \<Rightarrow> string \<Rightarrow> string \<Rightarrow> 'w cstate \<Rightarrow> (error + unit) \<times> 'w cstate" where
  "login be username password s =
     (case login_reply be username password (fst s) of
        (r, w') \<Rightarrow> (r, (w', snd s @ [Login username password])))"

text \<open>
  \<open>toOrderSummary\<close> (lines 814-837): the fulfilled quantity of a line is the sum of its
  fulfillment lines' quantities, a missing quantity counting as 0.
\<close>

definition toOrderLineSummary :: "RawOrderLine \<Rightarrow> OrderLineSummary" where
  "toOrderLineSummary line =
     \<lparr> id_line = id_raw line,
       quantity = quantity_raw line,
       fulfilledQuantity =
         foldl (\<lambda>total item. total + (case item of None \<Rightarrow> 0 | Some q \<Rightarrow> q)) 0
               (case fulfillmentLines_raw line of None \<Rightarrow> [] | Some fl \<Rightarrow> fl),
       productVariant = productVariant_raw line \<rparr>"

definition toOrderSummary :: "RawOrder \<Rightarrow> OrderSummary" where
  "toOrderSummary order =
     \<lparr> id_order = id_ro order,
       code = code_ro order,
       state_order = state_ro order,
       createdAt = createdAt_ro order,
       fulfillments = fulfillments_ro order,
       lines = map toOrderLineSummary (lines_ro order),
       shippingAddress = shippingAddress_ro order,
       customer = customer_ro order \<rparr>"

text \<open>\<open>fetchOrders\<close> (lines 552-563) filters by state on the client side.\<close>

definition fetchOrders ::
  "'w backend \<Rightarrow> OrderState list \<Rightarrow> int \<Rightarrow> 'w cstate \<Rightarrow> (error + OrderSummary list) \<times> 'w cstate" where
  "fetchOrders be states n s =
     (case graphql_orders be n s of
        (Inl e, s1) \<Rightarrow> (Inl e, s1)
      | (Inr items, s1) \<Rightarrow>
          (Inr (filter (\<lambda>ord. state_order ord \<in> set states) (map toOrderSummary items)), s1))"

definition fetchOrderByCode ::
  "'w backend \<Rightarrow> string \<Rightarrow> 'w cstate \<Rightarrow> (error + OrderSummary option) \<times> 'w cstate" where
  "fetchOrderByCode be c s =
     (case graphql_orderByCode be c s of
        (Inl e, s1) \<Rightarrow> (Inl e, s1)
      | (Inr None, s1) \<Rightarrow> (Inr None, s1)
      | (Inr (Some raw), s1) \<Rightarrow> (Inr (Some (toOrderSummary raw)), s1))"

text \<open>\<open>supportsCreateFulfillment\<close> (lines 654-665): a failed probe counts as unsupported.\<close>

definition supportsCreateFulfillment :: "'w backend \<Rightarrow> 'w cstate \<Rightarrow> bool \<times> 'w cstate" where
  "supportsCreateFulfillment be s =
     (case graphql_introspect be s of
        (Inl e, s1) \<Rightarrow> (False, s1)
      | (Inr introspection, s1) \<Rightarrow>
          (let names = (case introspection of None \<Rightarrow> [] | Some fs \<Rightarrow> fs)
           in (''createFulfillment'' \<in> set names \<or> ''addFulfillmentToOrder'' \<in> set names, s1)))"

text \<open>
  The message of a failed creation: \<open>[message, transitionError].filter(Boolean).join(sep)\<close>,
  and \<open>'Unknown fulfillment error'\<close> when that is empty.
\<close>

definition joinErrorParts :: "string option \<Rightarrow> string option \<Rightarrow> string" where
  "joinErrorParts message transitionError =
     join_str em_dash_sep (map the (filter truthy [message, transitionError]))"

definition fulfillmentErrorMessage :: "string option \<Rightarrow> string option \<Rightarrow> string" where
  "fulfillmentErrorMessage message transitionError =
     (let joined = joinErrorParts message transitionError
      in if joined = [] then ''Unknown fulfillment error'' else joined)"

text \<open>
  Lines 706-708 and 775-777: \<open>errorCode ?? ''\<close> and \<open>message ?? ''\<close>, tested against the two
  patterns.
\<close>

definition isInvalidHandler :: "string option \<Rightarrow> string option \<Rightarrow> bool" where
  "isInvalidHandler errorCode message =
     (let code = (case errorCode of None \<Rightarrow> [] | Some c \<Rightarrow> c);
          msg = (case message of None \<Rightarrow> [] | Some m \<Rightarrow> m)
      in regex_test_i ''INVALID_FULFILLMENT_HANDLER'' code
         \<or> regex_test_i ''InvalidFulfillmentHandler'' msg)"

text \<open>Lines 742-748: the handler arguments of the legacy shape.\<close>

definition handlerArgs :: "CreateFulfillmentArgs \<Rightarrow> (string \<times> string) list" where
  "handlerArgs input =
     (if truthy (method_arg input) then [(''method'', the (method_arg input))] else [])
     @ (if truthy (trackingCode_arg input) then [(''trackingCode'', the (trackingCode_arg input))] else [])"

text \<open>\<open>createFulfillment\<close> (lines 667-812).\<close>

definition createFulfillment ::
  "'w backend \<Rightarrow> CreateFulfillmentArgs \<Rightarrow> 'w cstate \<Rightarrow>
   (error + CreateFulfillmentResult) \<times> 'w cstate" where
  "createFulfillment be input s0 =
     (case graphql_introspect be s0 of
        (Inl e, s1) \<Rightarrow> (Inl e, s1)
      | (Inr introspection, s1) \<Rightarrow>
        (let names = (case introspection of None \<Rightarrow> [] | Some fs \<Rightarrow> fs) in
         if ''createFulfillment'' \<in> set names then
           (case graphql_createFulfillment be
                   \<lparr> orderId_in = orderId input,
                     lines_in = lines_arg input,
                     handlerCode_in = handlerCode input,
                     method_in = method_arg input,
                     trackingCode_in = trackingCode_arg input,
                     customFields_in = customFields input \<rparr> s1 of
              (Inl e, s2) \<Rightarrow> (Inl e, s2)
            | (Inr (FulfillmentSuccess fid st m), s2) \<Rightarrow> (Inr (CreateSuccess fid st m), s2)
            | (Inr (FulfillmentError tn message transitionError errorCode), s2) \<Rightarrow>
                if isInvalidHandler errorCode message then
                  (case graphql_createFulfillment be
                          \<lparr> orderId_in = orderId input,
                            lines_in = lines_arg input,
                            handlerCode_in = ''manual-fulfillment'',
                            method_in = method_arg input,
                            trackingCode_in = trackingCode_arg input,
                            customFields_in = customFields input \<rparr> s2 of
                     (Inl e, s3) \<Rightarrow> (Inl e, s3)
                   | (Inr (FulfillmentSuccess fid st m), s3) \<Rightarrow> (Inr (CreateSuccess fid st m), s3)
                   | (Inr (FulfillmentError tn' message' transitionError' errorCode'), s3) \<Rightarrow>
                       (Inr (CreateFailure (fulfillmentErrorMessage message' transitionError')), s3))
                else (Inr (CreateFailure (fulfillmentErrorMessage message transitionError)), s2))
         else if ''addFulfillmentToOrder'' \<in> set names then
           (case graphql_addFulfillmentToOrder be
                   \<lparr> lines_leg = lines_arg input,
                     handler_leg = \<lparr> code_h = handlerCode input, arguments_h = handlerArgs input \<rparr>,
                     customFields_leg = customFields input \<rparr> s1 of
              (Inl e, s2) \<Rightarrow> (Inl e, s2)
            | (Inr (FulfillmentSuccess fid st m), s2) \<Rightarrow> (Inr (CreateSuccess fid st m), s2)
            | (Inr (FulfillmentError tn message transitionError errorCode), s2) \<Rightarrow>
                if isInvalidHandler errorCode message then
                  (case graphql_addFulfillmentToOrder be
                          \<lparr> lines_leg = lines_arg input,
                            handler_leg = \<lparr> code_h = ''manual-fulfillment'',
                                            arguments_h = handlerArgs input \<rparr>,
                            customFields_leg = customFields input \<rparr> s2 of
                     (Inl e, s3) \<Rightarrow> (Inl e, s3)
                   | (Inr (FulfillmentSuccess fid st m), s3) \<Rightarrow> (Inr (CreateSuccess fid st m), s3)
                   | (Inr (FulfillmentError tn' message' transitionError' errorCode'), s3) \<Rightarrow>
                       (Inr (CreateFailure (fulfillmentErrorMessage message' transitionError')), s3))
                else (Inr (CreateFailure (fulfillmentErrorMessage message transitionError)), s2))
         else (Inl (Error ''Vendure Admin API does not support fulfillment mutations''), s1)))"

text \<open>\<open>transitionFulfillmentToState\<close> (lines 839-849) and \<open>updateFulfillmentTracking\<close> (851-860).\<close>

definition transitionFulfillmentToState ::
  "'w backend \<Rightarrow> string \<Rightarrow> string option \<Rightarrow> 'w cstate \<Rightarrow> (error + unit) \<times> 'w cstate" where
  "transitionFulfillmentToState be fid st s =
     (case graphql_transition be fid st s of
        (Inl e, s1) \<Rightarrow> (Inl e, s1)
      | (Inr result, s1) \<Rightarrow>
          if typename_r result \<noteq> ''Fulfillment'' then
            (let err = joinErrorParts (message_r result) (transitionError_r result)
             in (Inl (Error (if err = [] then ''Failed to transition fulfillment state'' else err)), s1))
          else (Inr (), s1))"

definition updateFulfillmentTracking ::
  "'w backend \<Rightarrow> string \<Rightarrow> string option \<Rightarrow> string option \<Rightarrow> 'w cstate \<Rightarrow>
   (error + unit) \<times> 'w cstate" where
  "updateFulfillmentTracking be fid trackingCode method s =
     (case graphql_updateTracking be fid trackingCode method s of
        (Inl e, s1) \<Rightarrow> (Inl e, s1)
      | (Inr result, s1) \<Rightarrow>
          if typename_r result \<noteq> ''Fulfillment'' then
            (Inl (Error (if truthy (message_r result) then the (message_r result)
                         else ''Failed to update fulfillment tracking'')), s1)
          else (Inr (), s1))"

section \<open>Configuration and JavaScript objects\<close>

text \<open>
  An object written as a literal, or built from \<open>{}\<close>, inherits from \<open>Object.prototype\<close>.
  Reading \<open>obj[key]\<close> gives the own property when there is one, the inherited member
  (a function or object, so truthy, and without the fields of an own value) when \<open>key\<close>
  names a member of \<open>Object.prototype\<close>, and \<open>undefined\<close> otherwise.
\<close>

datatype 'a js_prop = OwnProperty 'a | InheritedProperty | NoProperty

definition object_prototype_names :: "string list" where
  "object_prototype_names =
     [''constructor'', ''__defineGetter__'', ''__defineSetter__'', ''hasOwnProperty'',
      ''__lookupGetter__'', ''__lookupSetter__'', ''isPrototypeOf'', ''propertyIsEnumerable'',
      ''toString'', ''valueOf'', ''__proto__'', ''toLocaleString'']"

definition js_get :: "(string \<rightharpoonup> 'a) \<Rightarrow> string \<Rightarrow> 'a js_prop" where
  "js_get obj key =
     (case obj key of
        Some v \<Rightarrow> OwnProperty v
      | None \<Rightarrow> if key \<in> set object_prototype_names then InheritedProperty else NoProperty)"

record MappingEntry =
  productId_m :: int
  variantId_m :: int

text \<open>
  \<open>AutomationConfig\<close> (src/src/config.ts), the fields the handlers read. \<open>loadConfig\<close>
  itself reads the environment; a handler is given what it returned or threw.
\<close>

record Config =
  username :: string
  password :: string
  fulfillmentHandlerCode :: string
  fulfillmentMethod :: string
  maxOrdersPerRun :: int
  dryRun :: bool
  secret_job :: "string option"
  enabled_printify :: bool
  shippingMethod :: "int option"
  webhookSecret :: "string option"
  productMapping :: "string \<rightharpoonup> MappingEntry"

text \<open>A header or query value: a string or an array of strings.\<close>

datatype header_value = Single string | Multi "string list"

text \<open>The message of a caught value: \<open>error instanceof Error ? error.message : String(error)\<close>.\<close>

fun message_of :: "error \<Rightarrow> string" where
  "message_of (Error m) = m"
| "message_of (RangeError m) = m"
| "message_of (TypeError m) = m"

record response =
  status :: nat
  allow :: "string option"

datatype response_body =
  ErrorBody string
  | IgnoredBody
  | SuccessBody bool
  | NoOrdersBody
  | DryRunBody "(string \<times> nat) list"
  | SummaryBody int "(string \<times> string) list"

section \<open>The webhook endpoint (src/unnamed/part_005)\<close>

record Shipment =
  carrier :: "string option"
  tracking_number :: "string option"

record WebhookData =
  id_data :: "string option"
  external_id_data :: "string option"
  shipments_data :: "Shipment list option"

record PrintifyWebhookPayload =
  event :: "string option"
  data_payload :: "WebhookData option"

record RequestLike =
  method_req :: "string option"
  headers_req :: "string \<rightharpoonup> header_value"
  body_req :: "string option"

text \<open>\<open>PRINTIFY_EVENT_MAP\<close> (lines 7-11): the own properties, each with its \<open>targetState\<close>.\<close>

definition PRINTIFY_EVENT_MAP :: "string \<rightharpoonup> string" where
  "PRINTIFY_EVENT_MAP =
     map_of [(''order:sent-to-production'', ''Fulfilled''),
             (''order:shipment:created'', ''Shipped''),
             (''order:shipment:delivered'', ''Delivered'')]"

text \<open>\<open>getHeader\<close> (lines 48-54).\<close>

definition getHeader :: "(string \<rightharpoonup> header_value) \<Rightarrow> string \<Rightarrow> string option" where
  "getHeader headers name =
     (case (case headers name of None \<Rightarrow> headers (toLowerCase name) | Some v \<Rightarrow> Some v) of
        None \<Rightarrow> None
      | Some (Multi vs) \<Rightarrow> (case vs of [] \<Rightarrow> None | v # _ \<Rightarrow> Some v)
      | Some (Single v) \<Rightarrow> Some v)"

text \<open>
  \<open>Buffer.from(s, 'hex')\<close>: bytes are decoded from pairs of hexadecimal digits, of either
  case, and decoding stops at the first pair that is not two such digits; a last
  unpaired character is dropped.
\<close>

definition unhex :: "char \<Rightarrow> nat option" where
  "unhex c = map_of (zip ''0123456789abcdefABCDEF''
                         [0, 1, 2, 3, 4, 5, 6, 7, 8, 9, 10, 11, 12, 13, 14, 15, 10, 11, 12, 13, 14, 15]) c"

fun hexDecode :: "string \<Rightarrow> nat list" where
  "hexDecode (a # b # rest) =
     (case unhex a of
        None \<Rightarrow> []
      | Some x \<Rightarrow> (case unhex b of None \<Rightarrow> [] | Some y \<Rightarrow> (16 * x + y) # hexDecode rest))"
| "hexDecode [a] = []"
| "hexDecode [] = []"

text \<open>
  \<open>verifySignature\<close> (lines 56-65). \<open>hmac secret body\<close> stands for
  \<open>crypto.createHmac('sha256', secret).update(body).digest('hex')\<close>.
  \<open>crypto.timingSafeEqual\<close> throws a \<open>RangeError\<close> on buffers of different lengths.
\<close>

definition verifySignature_005 ::
  "(string \<Rightarrow> string \<Rightarrow> string) \<Rightarrow> string \<Rightarrow> string option \<Rightarrow> string option \<Rightarrow> error + bool" where
  "verifySignature_005 hmac rawBody secret signature =
     (if \<not> truthy secret then Inr True
      else if \<not> truthy signature then Inr False
      else (let a = hexDecode (hmac (the secret) rawBody);
                b = hexDecode (the signature)
            in if length a \<noteq> length b
               then Inl (RangeError ''Input buffers must have the same byte length'')
               else Inr (a = b)))"

text \<open>
  \<open>transitionFulfillments\<close> (lines 67-96). The target state is \<open>None\<close> when the event
  configuration read from the map has no \<open>targetState\<close>.
\<close>

definition transitionFulfillments ::
  "'w backend \<Rightarrow> OrderSummary \<Rightarrow> string option \<Rightarrow> Shipment option \<Rightarrow> 'w cstate \<Rightarrow>
   (error + string option) \<times> 'w cstate" where
  "transitionFulfillments be order targetState tracking s =
     (case fulfillments order of
        [] \<Rightarrow> (Inr None, s)
      | _ # _ \<Rightarrow>
        (let latest = last (fulfillments order) in
         case transitionFulfillmentToState be (id_ful latest) targetState s of
           (Inl e, s1) \<Rightarrow> (Inl (Error (''Vendure transition failed: '' @ message_of e)), s1)
         | (Inr u, s1) \<Rightarrow>
             if truthy (case tracking of None \<Rightarrow> None | Some t \<Rightarrow> tracking_number t) then
               (case updateFulfillmentTracking be (id_ful latest)
                        (tracking_number (the tracking)) (carrier (the tracking)) s1 of
                  (Inl e, s2) \<Rightarrow>
                    (Inl (Error (''Vendure tracking update failed: '' @ message_of e)), s2)
                | (Inr u', s2) \<Rightarrow> (Inr (Some (id_ful latest)), s2))
             else (Inr (Some (id_ful latest)), s1)))"

text \<open>
  The part of \<open>handler\<close> after the event configuration is found (lines 145-174): one
  \<open>try\<close> block whose \<open>catch\<close> reports the message and answers 500.
\<close>

definition reconcile_005 ::
  "'w backend \<Rightarrow> Config \<Rightarrow> bool \<Rightarrow> string \<Rightarrow> WebhookData \<Rightarrow> string option \<Rightarrow> 'w cstate \<Rightarrow>
   (response \<times> response_body) \<times> 'w cstate" where
  "reconcile_005 be config hasBypass ext_id dat targetState s =
     (let failed = (\<lambda>e s'. ((\<lparr> status = 500, allow = None \<rparr>, ErrorBody (message_of e)),
                               notify (WebhookFailed (message_of e)) s')) in
      case login be (username config) (password config) s of
        (Inl e, s1) \<Rightarrow> failed e s1
      | (Inr u, s1) \<Rightarrow>
        (case fetchOrderByCode be ext_id s1 of
           (Inl e, s2) \<Rightarrow> failed e s2
         | (Inr None, s2) \<Rightarrow>
             ((\<lparr> status = 404, allow = None \<rparr>, ErrorBody ''Order not found''),
              notify (WebhookOrderNotFound ext_id) s2)
         | (Inr (Some order), s2) \<Rightarrow>
           (let tracking = (case shipments_data dat of
                              None \<Rightarrow> None
                            | Some [] \<Rightarrow> None
                            | Some (trackingInfo # _) \<Rightarrow> Some trackingInfo) in
            case transitionFulfillments be order targetState tracking s2 of
              (Inl e, s3) \<Rightarrow> failed e s3
            | (Inr fulfillmentId, s3) \<Rightarrow>
                ((\<lparr> status = 200, allow = None \<rparr>, SuccessBody hasBypass),
                 notify (WebhookProcessed hasBypass (code order) fulfillmentId targetState) s3))))"

text \<open>
  The part of \<open>handler\<close> after the signature gate (lines 129-174). \<open>parse\<close> stands for
  \<open>JSON.parse\<close> followed by the cast to the payload type. Its exception is caught and
  answered with 400; on \<open>null\<close>, reading \<open>payload.event\<close> at line 136 throws a
  \<open>TypeError\<close> outside every \<open>try\<close>, and \<open>Inl e\<close> is that exception.
\<close>

definition handleAuthentic_005 ::
  "'w backend \<Rightarrow> (string \<Rightarrow> PrintifyWebhookPayload parsed) \<Rightarrow> Config \<Rightarrow> bool \<Rightarrow> string \<Rightarrow>
   'w cstate \<Rightarrow> (error + response \<times> response_body) \<times> 'w cstate" where
  "handleAuthentic_005 be parse config hasBypass rawBody s =
     (case parse rawBody of
        ParseThrows \<Rightarrow>
          (Inr (\<lparr> status = 400, allow = None \<rparr>, ErrorBody ''Invalid JSON payload''), s)
      | ParsedNull \<Rightarrow>
          (Inl (TypeError ''Cannot read properties of null''), s)
      | Parsed payload \<Rightarrow>
        if \<not> (truthy (event payload)
              \<and> truthy (case data_payload payload of None \<Rightarrow> None
                          | Some d \<Rightarrow> external_id_data d)) then
          (Inr (\<lparr> status = 400, allow = None \<rparr>, ErrorBody ''Missing event or external_id''), s)
        else
          (case js_get PRINTIFY_EVENT_MAP (the (event payload)) of
             NoProperty \<Rightarrow> (Inr (\<lparr> status = 200, allow = None \<rparr>, IgnoredBody), s)
           | InheritedProperty \<Rightarrow>
               (case reconcile_005 be config hasBypass
                       (the (external_id_data (the (data_payload payload))))
                       (the (data_payload payload)) None s of
                  (r, s') \<Rightarrow> (Inr r, s'))
           | OwnProperty targetState \<Rightarrow>
               (case reconcile_005 be config hasBypass
                       (the (external_id_data (the (data_payload payload))))
                       (the (data_payload payload)) (Some targetState) s of
                  (r, s') \<Rightarrow> (Inr r, s'))))"

text \<open>Lines 104 and 120-122.\<close>

definition rawBody_005 :: "RequestLike \<Rightarrow> string" where
  "rawBody_005 req = (case body_req req of None \<Rightarrow> [] | Some b \<Rightarrow> b)"

definition hasBypass_005 :: "Config \<Rightarrow> RequestLike \<Rightarrow> bool" where
  "hasBypass_005 config req =
     (let bypassSecret = getHeader (headers_req req) ''x-automation-secret''
      in truthy (secret_job config) \<and> truthy bypassSecret \<and> bypassSecret = secret_job config)"

text \<open>
  The condition of line 124, \<open>!hasBypass && !verifySignature(...)\<close>: with a bypass
  \<open>verifySignature\<close> is not called. The value is whether the request passes.
\<close>

definition signatureGate_005 :: "(string \<Rightarrow> string \<Rightarrow> string) \<Rightarrow> Config \<Rightarrow> RequestLike \<Rightarrow> error + bool" where
  "signatureGate_005 hmac config req =
     (if hasBypass_005 config req then Inr True
      else verifySignature_005 hmac (rawBody_005 req) (webhookSecret config)
             (getHeader (headers_req req) ''printify-signature''))"

text \<open>
  \<open>handler\<close> (lines 98-175). \<open>Inl e\<close> is an exception that leaves the handler: the one
  of \<open>verifySignature\<close>, called outside every \<open>try\<close>, or the one of a \<open>null\<close> payload.
\<close>

definition handler_005 ::
  "'w backend \<Rightarrow> (string \<Rightarrow> string \<Rightarrow> string) \<Rightarrow> (string \<Rightarrow> PrintifyWebhookPayload parsed) \<Rightarrow>
   error + Config \<Rightarrow> RequestLike \<Rightarrow> 'w cstate \<Rightarrow>
   (error + response \<times> response_body) \<times> 'w cstate" where
  "handler_005 be hmac parse loaded req s =
     (if method_req req \<noteq> Some ''POST'' then
        (Inr (\<lparr> status = 405, allow = Some ''POST'' \<rparr>, ErrorBody ''Method not allowed''), s)
      else
        (case loaded of
           Inl e \<Rightarrow> (Inr (\<lparr> status = 500, allow = None \<rparr>, ErrorBody (message_of e)), s)
         | Inr config \<Rightarrow>
           (case signatureGate_005 hmac config req of
              Inl e \<Rightarrow> (Inl e, s)
            | Inr False \<Rightarrow>
                (Inr (\<lparr> status = 401, allow = None \<rparr>, ErrorBody ''Invalid signature''),
                 notify WebhookRejected s)
            | Inr True \<Rightarrow>
                handleAuthentic_005 be parse config (hasBypass_005 config req)
                  (rawBody_005 req) s)))"

section \<open>The webhook library function (src/unnamed/part_002)\<close>

record PrintifyWebhookEvent =
  type_evt :: "string option"
  status_evt :: "string option"
  external_id_evt :: "string option"
  shipments_evt :: "Shipment list option"

record WebhookResult =
  ok :: bool
  message_res :: "string option"

text \<open>
  The \<open>body\<close> argument is a string, or any other value, given by the text
  \<open>JSON.stringify(body ?? {})\<close> produces for it.
\<close>

datatype webhook_body = StringBody string | JsonBody string

definition emptyEvent :: PrintifyWebhookEvent where
  "emptyEvent = \<lparr> type_evt = None, status_evt = None, external_id_evt = None, shipments_evt = None \<rparr>"

text \<open>
  \<open>normalizeEvent\<close> (lines 18-24), on the string the handler passes. \<open>parse\<close> stands
  for \<open>JSON.parse\<close> followed by the cast to the event type. The result is \<open>None\<close> when
  the text parses to \<open>null\<close>, which the function returns as it is.
\<close>

definition normalizeEvent ::
  "(string \<Rightarrow> PrintifyWebhookEvent parsed) \<Rightarrow> string \<Rightarrow> PrintifyWebhookEvent option" where
  "normalizeEvent parse body =
     (if body = [] then Some emptyEvent
      else (case parse body of
              ParseThrows \<Rightarrow> Some emptyEvent
            | ParsedNull \<Rightarrow> None
            | Parsed evt \<Rightarrow> Some evt))"

text \<open>\<open>mapEventToState\<close> (lines 26-33).\<close>

definition mapEventToState :: "PrintifyWebhookEvent \<Rightarrow> string option" where
  "mapEventToState evt =
     (let t = toLowerCase (case type_evt evt of None \<Rightarrow> [] | Some x \<Rightarrow> x);
          s = toLowerCase (case status_evt evt of None \<Rightarrow> [] | Some x \<Rightarrow> x)
      in if includes_str t ''delivered'' \<or> s = ''delivered'' then Some ''Delivered''
         else if includes_str t ''shipped'' \<or> s = ''shipped'' then Some ''Shipped''
         else if includes_str t ''fulfilled'' \<or> s = ''fulfilled'' then Some ''Fulfilled''
         else None)"

text \<open>
  \<open>verifySignature\<close> (lines 37-47). \<open>crypto\<close> is \<open>None\<close> when \<open>require('crypto')\<close> or the
  digest throws, and otherwise the function computing the hexadecimal HMAC-SHA256.
\<close>

definition verifySignature_002 ::
  "(string \<Rightarrow> string \<Rightarrow> string) option \<Rightarrow> string option \<Rightarrow> string option \<Rightarrow> string option \<Rightarrow> bool" where
  "verifySignature_002 crypto secret bodyRaw signature =
     (if \<not> (truthy secret \<and> truthy bodyRaw \<and> truthy signature) then True
      else (case crypto of
              None \<Rightarrow> True
            | Some hmac \<Rightarrow> hmac (the secret) (the bodyRaw) = the signature))"

text \<open>
  The part of \<open>handlePrintifyWebhook\<close> after the signature check (lines 66-109).
  \<open>Inl e\<close> is an exception that leaves the function: nothing here is caught. On an
  event that is \<open>null\<close>, \<open>mapEventToState\<close> throws a \<open>TypeError\<close> at line 27, before the
  login.
\<close>

definition handleVerified_002 ::
  "'w backend \<Rightarrow> (string \<Rightarrow> PrintifyWebhookEvent parsed) \<Rightarrow> Config \<Rightarrow> string \<Rightarrow> 'w cstate \<Rightarrow>
   (error + WebhookResult) \<times> 'w cstate" where
  "handleVerified_002 be parse cfg bodyRaw s =
     (case normalizeEvent parse bodyRaw of
        None \<Rightarrow> (Inl (TypeError ''Cannot read properties of null''), s)
      | Some evt \<Rightarrow>
     (let targetState = mapEventToState evt in
      case login be (username cfg) (password cfg) s of
        (Inl e, s1) \<Rightarrow> (Inl e, s1)
      | (Inr u, s1) \<Rightarrow>
        if \<not> truthy (external_id_evt evt) then
          (Inr \<lparr> ok = False, message_res = Some ''Missing external_id'' \<rparr>,
           notify LibMissingExternalId s1)
        else
          (case fetchOrderByCode be (the (external_id_evt evt)) s1 of
             (Inl e, s2) \<Rightarrow> (Inl e, s2)
           | (Inr None, s2) \<Rightarrow>
               (Inr \<lparr> ok = False, message_res = Some ''Order not found'' \<rparr>,
                notify (LibOrderNotFound (the (external_id_evt evt))) s2)
           | (Inr (Some order), s2) \<Rightarrow>
             (case fulfillments order of
                [] \<Rightarrow>
                  (Inr \<lparr> ok = False, message_res = Some ''No fulfillment found'' \<rparr>,
                   notify (LibNoFulfillment (code order)) s2)
              | _ # _ \<Rightarrow>
                (let fulfillment = last (fulfillments order) in
                 if dryRun cfg then
                   (Inr \<lparr> ok = True, message_res = None \<rparr>,
                    notify (LibDryRun (code order) targetState) s2)
                 else
                   (case (if targetState = Some ''Shipped'' then
                            (let shipment = (case shipments_evt evt of
                                               None \<Rightarrow> None
                                             | Some [] \<Rightarrow> None
                                             | Some (sh # _) \<Rightarrow> Some sh);
                                 tn = (case shipment of None \<Rightarrow> None | Some sh \<Rightarrow> tracking_number sh);
                                 ca = (case shipment of None \<Rightarrow> None | Some sh \<Rightarrow> carrier sh) in
                             if truthy tn \<or> truthy ca then
                               (case updateFulfillmentTracking be (id_ful fulfillment) tn ca s2 of
                                  (Inl e, s3) \<Rightarrow> (Inl e, s3)
                                | (Inr u', s3) \<Rightarrow>
                                    (Inr (), notify (LibTrackingUpdated (code order) tn) s3))
                             else (Inr (), s2))
                          else (Inr (), s2)) of
                      (Inl e, s4) \<Rightarrow> (Inl e, s4)
                    | (Inr u'', s4) \<Rightarrow>
                        (case targetState of
                           None \<Rightarrow> (Inr \<lparr> ok = True, message_res = None \<rparr>, s4)
                         | Some st \<Rightarrow>
                             (case transitionFulfillmentToState be (id_ful fulfillment) (Some st) s4 of
                                (Inl e, s5) \<Rightarrow> (Inl e, s5)
                              | (Inr u3, s5) \<Rightarrow>
                                  (Inr \<lparr> ok = True, message_res = None \<rparr>,
                                   notify (LibTransitioned (code order) st) s5)))))))))"

text \<open>Lines 58-59.\<close>

definition bodyRaw_002 :: "webhook_body \<Rightarrow> string" where
  "bodyRaw_002 body = (case body of StringBody b \<Rightarrow> b | JsonBody b \<Rightarrow> b)"

definition signature_002 :: "(string \<rightharpoonup> string) \<Rightarrow> string" where
  "signature_002 headers =
     (if truthy (headers ''X-Printify-Signature'') then the (headers ''X-Printify-Signature'')
      else if truthy (headers ''x-printify-signature'') then the (headers ''x-printify-signature'')
      else [])"

text \<open>
  \<open>handlePrintifyWebhook\<close> (lines 49-110). \<open>loadConfig\<close> is called first, and its
  exception leaves the function.
\<close>

definition handlePrintifyWebhook ::
  "'w backend \<Rightarrow> (string \<Rightarrow> string \<Rightarrow> string) option \<Rightarrow> (string \<Rightarrow> PrintifyWebhookEvent parsed) \<Rightarrow>
   error + Config \<Rightarrow> webhook_body \<Rightarrow> (string \<rightharpoonup> string) \<Rightarrow> 'w cstate \<Rightarrow>
   (error + WebhookResult) \<times> 'w cstate" where
  "handlePrintifyWebhook be crypto parse loaded body headers s =
     (case loaded of
        Inl e \<Rightarrow> (Inl e, s)
      | Inr cfg \<Rightarrow>
        if \<not> verifySignature_002 crypto (webhookSecret cfg) (Some (bodyRaw_002 body))
                (Some (signature_002 headers)) then
          (Inr \<lparr> ok = False, message_res = Some ''Invalid signature'' \<rparr>, notify LibWebhookRejected s)
        else handleVerified_002 be parse cfg (bodyRaw_002 body) s)"

section \<open>The batch job (src/unnamed/part_001)\<close>

text \<open>\<open>splitName\<close> (lines 6-11).\<close>

definition splitName :: "string option \<Rightarrow> string \<times> string" where
  "splitName fullName' =
     (let name = trim (case fullName' of None \<Rightarrow> [] | Some n \<Rightarrow> n)
      in if name = [] then (''Customer'', [])
         else (case splitWhitespace name of
                 [] \<Rightarrow> ([], [])
               | first # others \<Rightarrow> (first, join_str '' '' others)))"

text \<open>
  \<open>buildPrintifyLineItems\<close> (lines 13-25): the loop stops at the first line without a
  mapping. The lookup key is the SKU, and the variant name when the SKU is \<open>null\<close>; an
  empty key is never looked up.
\<close>

fun buildItems_001 ::
  "(string \<rightharpoonup> MappingEntry) \<Rightarrow> OutstandingLine list \<Rightarrow> error + PrintifyLineItemInput list" where
  "buildItems_001 mapping [] = Inr []"
| "buildItems_001 mapping (line # rest) =
     (let sku = (case sku_out line of None \<Rightarrow> variantName line | Some k \<Rightarrow> k) in
      case (if sku \<noteq> [] then js_get mapping sku else NoProperty) of
        NoProperty \<Rightarrow>
          Inl (Error (''No Printify mapping found for SKU '' @ [CHR 0x27] @ sku @ [CHR 0x27]))
      | InheritedProperty \<Rightarrow>
          (case buildItems_001 mapping rest of
             Inl e \<Rightarrow> Inl e
           | Inr items \<Rightarrow>
               Inr (\<lparr> productId = None, variantId = None, quantity_li = quantity_out line,
                      metadata_li = None \<rparr> # items))
      | OwnProperty m \<Rightarrow>
          (case buildItems_001 mapping rest of
             Inl e \<Rightarrow> Inl e
           | Inr items \<Rightarrow>
               Inr (\<lparr> productId = Some (productId_m m), variantId = Some (variantId_m m),
                      quantity_li = quantity_out line, metadata_li = None \<rparr> # items)))"

definition buildPrintifyLineItems_001 ::
  "OrderSummary \<Rightarrow> (string \<rightharpoonup> MappingEntry) \<Rightarrow> error + PrintifyLineItemInput list" where
  "buildPrintifyLineItems_001 order mapping =
     buildItems_001 mapping (getOutstandingFulfillmentLines order)"

text \<open>
  The block of \<open>fulfillOrder\<close> that sends the order to the partner (lines 43-86). The
  result is \<open>None\<close> when the function returns early for missing mappings, and the
  partner's order id otherwise.
\<close>

definition sendToPrintify_001 ::
  "(CreatePrintifyOrderInput \<Rightarrow> 'w \<Rightarrow> (error + PrintifyOrderResponse) \<times> 'w) \<Rightarrow> Config \<Rightarrow>
   OrderSummary \<Rightarrow> OutstandingLine list \<Rightarrow> 'w cstate \<Rightarrow> (error + string option) \<times> 'w cstate" where
  "sendToPrintify_001 printify cfg order outstanding s =
     (let missingSkus =
            filter (\<lambda>sku. js_get (productMapping cfg) sku = NoProperty)
              (map (\<lambda>l. case sku_out l of None \<Rightarrow> variantName l | Some k \<Rightarrow> k) outstanding) in
      if missingSkus \<noteq> [] then
        (Inr None, notify (RunMissingMapping (code order) missingSkus) s)
      else
        (let addr = (\<lambda>f. case shippingAddress order of None \<Rightarrow> None | Some a \<Rightarrow> f a);
             orElse = (\<lambda>v d. if truthy v then the v else d);
             names = splitName (addr fullName);
             address =
               \<lparr> first_name = fst names,
                 last_name = snd names,
                 email = orElse (case customer order of None \<Rightarrow> None | Some c \<Rightarrow> emailAddress c)
                           ''unknown@example.com'',
                 phone = Some (orElse (addr phoneNumber) []),
                 country = orElse (addr countryCode) ''US'',
                 region = Some (orElse (addr provinceCode) (orElse (addr province) [])),
                 address1 = orElse (addr streetLine1) [],
                 address2 = Some (orElse (addr streetLine2) []),
                 city_to = orElse (addr city) [],
                 zip_to = orElse (addr postalCode) [] \<rparr> in
         case buildPrintifyLineItems_001 order (productMapping cfg) of
           Inl e \<Rightarrow> (Inl e, s)
         | Inr items \<Rightarrow>
           (let input = \<lparr> external_id = code order,
                          label = Some (''Order '' @ code order),
                          line_items = items,
                          shipping_method = shippingMethod cfg,
                          send_shipping_notification = False,
                          address_to = address,
                          metadata = [(''vendure_order_id'', id_order order)] \<rparr> in
            case printifyCreateOrder printify input (notify (RunCreatePrintify (code order)) s) of
              (Inl e, s1) \<Rightarrow> (Inl e, s1)
            | (Inr resp, s1) \<Rightarrow>
                (Inr (Some (id_po resp)),
                 notify (RunPrintifyCreated (code order) (id_po resp)) s1))))"

text \<open>
  \<open>fulfillOrder\<close> (lines 27-110). \<open>Inl e\<close> is the exception it throws. The partner
  block yields \<open>Inr None\<close> when the function has returned inside it, and
  \<open>Inr (Some printifyOrderId)\<close> (the id is \<open>None\<close> when the block did not run) otherwise.
\<close>

definition fulfillOrder ::
  "'w backend \<Rightarrow> (CreatePrintifyOrderInput \<Rightarrow> 'w \<Rightarrow> (error + PrintifyOrderResponse) \<times> 'w) option \<Rightarrow>
   Config \<Rightarrow> OrderSummary \<Rightarrow> 'w cstate \<Rightarrow> (error + unit) \<times> 'w cstate" where
  "fulfillOrder be printify cfg order s =
     (let outstanding = getOutstandingFulfillmentLines order in
      if outstanding = [] then (Inr (), notify (RunSkipOrder (code order)) s)
      else
        (let linesForVendure =
               map (\<lambda>l. \<lparr> orderLineId_in = orderLineId l, quantity_in = quantity_out l \<rparr>) outstanding in
         case (if enabled_printify cfg \<and> printify \<noteq> None
               then (case sendToPrintify_001 (the printify) cfg order outstanding s of
                       (Inl e, s1) \<Rightarrow> (Inl e, s1)
                     | (Inr None, s1) \<Rightarrow> (Inr None, s1)
                     | (Inr (Some pid), s1) \<Rightarrow> (Inr (Some (Some pid)), s1))
               else (Inr (Some None), s)) of
           (Inl e, s1) \<Rightarrow> (Inl e, s1)
         | (Inr None, s1) \<Rightarrow> (Inr (), s1)
         | (Inr (Some printifyOrderId), s1) \<Rightarrow>
             if dryRun cfg then (Inr (), notify (RunDryRun (code order)) s1)
             else
               (case createFulfillment be
                       \<lparr> orderId = id_order order,
                         lines_arg = linesForVendure,
                         handlerCode = fulfillmentHandlerCode cfg,
                         method_arg = Some (if truthy printifyOrderId then ''Printify'' else ''Manual''),
                         trackingCode_arg = None,
                         customFields = None \<rparr>
                       (notify (RunCreateVendure (code order)) s1) of
                  (Inl e, s2) \<Rightarrow> (Inl e, s2)
                | (Inr (CreateFailure msg), s2) \<Rightarrow>
                    (Inl (Error (''Vendure fulfillment failed: '' @ msg)), s2)
                | (Inr (CreateSuccess fid st m), s2) \<Rightarrow>
                    (Inr (), notify (RunVendureCreated (code order) fid st) s2))))"

text \<open>The loop of \<open>runFulfillOrders\<close> (lines 133-142): each order in its own \<open>try\<close>.\<close>

fun fulfillOrders ::
  "'w backend \<Rightarrow> (CreatePrintifyOrderInput \<Rightarrow> 'w \<Rightarrow> (error + PrintifyOrderResponse) \<times> 'w) option \<Rightarrow>
   Config \<Rightarrow> OrderSummary list \<Rightarrow> 'w cstate \<Rightarrow> 'w cstate" where
  "fulfillOrders be printify cfg [] s = s"
| "fulfillOrders be printify cfg (order # rest) s =
     (case fulfillOrder be printify cfg order s of
        (Inl e, s1) \<Rightarrow>
          fulfillOrders be printify cfg rest (notify (RunOrderError (code order) (message_of e)) s1)
      | (Inr u, s1) \<Rightarrow> fulfillOrders be printify cfg rest s1)"

text \<open>
  \<open>runFulfillOrders\<close> (lines 112-149). \<open>loadConfig\<close> and \<open>login\<close> are outside the \<open>try\<close>;
  an exception of \<open>fetchOrders\<close> is reported and thrown again.
\<close>

definition runFulfillOrders ::
  "'w backend \<Rightarrow> (CreatePrintifyOrderInput \<Rightarrow> 'w \<Rightarrow> (error + PrintifyOrderResponse) \<times> 'w) \<Rightarrow>
   error + Config \<Rightarrow> 'w cstate \<Rightarrow> (error + unit) \<times> 'w cstate" where
  "runFulfillOrders be printifyApi loaded s =
     (case loaded of
        Inl e \<Rightarrow> (Inl e, s)
      | Inr cfg \<Rightarrow>
        (case login be (username cfg) (password cfg) s of
           (Inl e, s1) \<Rightarrow> (Inl e, s1)
         | (Inr u, s1) \<Rightarrow>
           (let printify = (if enabled_printify cfg then Some printifyApi else None) in
            case fetchOrders be [PaymentSettled, PartiallyFulfilled] (maxOrdersPerRun cfg)
                   (notify RunStarting s1) of
              (Inl e, s2) \<Rightarrow> (Inl e, notify (RunFailed (message_of e)) s2)
            | (Inr orders, s2) \<Rightarrow>
                (Inr (), notify RunCompleted (fulfillOrders be printify cfg orders s2)))))"

section \<open>The batch endpoint (src/unnamed/part_004)\<close>

text \<open>\<open>splitFullName\<close> (lines 20-35).\<close>

definition splitFullName :: "string option \<Rightarrow> string \<times> string" where
  "splitFullName fullName' =
     (if \<not> truthy fullName' then (''Customer'', ''Unknown'')
      else (case splitWhitespace (trim (the fullName')) of
              [] \<Rightarrow> (''Customer'', ''Unknown'')
            | [first] \<Rightarrow> (first, ''Customer'')
            | first # others \<Rightarrow> (first, join_str '' '' others)))"

text \<open>
  \<open>buildPrintifyLineItems\<close> (lines 39-60): \<open>map\<close> stops at the first line whose key has
  no mapping. The lookup key is the SKU, and the empty string when the SKU is \<open>null\<close>.
\<close>

fun buildPrintifyLineItems_004 ::
  "OutstandingLine list \<Rightarrow> (string \<rightharpoonup> MappingEntry) \<Rightarrow> error + PrintifyLineItemInput list" where
  "buildPrintifyLineItems_004 [] productMapping' = Inr []"
| "buildPrintifyLineItems_004 (line # rest) productMapping' =
     (let sku = (case sku_out line of None \<Rightarrow> [] | Some k \<Rightarrow> k);
          meta = Some [(''vendureOrderLineId'', orderLineId line), (''sku'', sku),
                       (''variantName'', variantName line)] in
      case js_get productMapping' sku of
        NoProperty \<Rightarrow>
          Inl (Error (''Missing PRINTIFY_PRODUCT_MAPPING entry for SKU '' @ quoted sku))
      | InheritedProperty \<Rightarrow>
          (case buildPrintifyLineItems_004 rest productMapping' of
             Inl e \<Rightarrow> Inl e
           | Inr items \<Rightarrow>
               Inr (\<lparr> productId = None, variantId = None, quantity_li = quantity_out line,
                      metadata_li = meta \<rparr> # items))
      | OwnProperty m \<Rightarrow>
          (case buildPrintifyLineItems_004 rest productMapping' of
             Inl e \<Rightarrow> Inl e
           | Inr items \<Rightarrow>
               Inr (\<lparr> productId = Some (productId_m m), variantId = Some (variantId_m m),
                      quantity_li = quantity_out line, metadata_li = meta \<rparr> # items)))"

text \<open>\<open>STATES_TO_FULFILL\<close> (line 6).\<close>

definition STATES_TO_FULFILL :: "OrderState list" where
  "STATES_TO_FULFILL = [PaymentSettled, PaymentAuthorized]"

record JobRequest =
  method_job :: "string option"
  query_job :: "string \<rightharpoonup> header_value"
  headers_job :: "string \<rightharpoonup> header_value"

text \<open>\<open>validateSecret\<close> (lines 62-70).\<close>

definition validateSecret :: "JobRequest \<Rightarrow> string option \<Rightarrow> bool" where
  "validateSecret req expected =
     (if \<not> truthy expected then True
      else (let stringOf = (\<lambda>v. case v of Some (Single x) \<Rightarrow> Some x | _ \<Rightarrow> None);
                fromQuery = stringOf (query_job req ''secret'');
                provided = (if truthy fromQuery then fromQuery
                            else stringOf (headers_job req ''x-automation-secret''))
            in provided = expected))"

text \<open>
  The \<open>try\<close> block of the loop that sends one order to the partner (lines 144-182); its
  \<open>catch\<close> is in \<open>processOrder_004\<close>.
\<close>

definition sendToPrintify_004 ::
  "(CreatePrintifyOrderInput \<Rightarrow> 'w \<Rightarrow> (error + PrintifyOrderResponse) \<times> 'w) \<Rightarrow> Config \<Rightarrow>
   OrderSummary \<Rightarrow> OutstandingLine list \<Rightarrow> 'w cstate \<Rightarrow> (error + unit) \<times> 'w cstate" where
  "sendToPrintify_004 printify config order outstanding s =
     (case shippingAddress order of
        None \<Rightarrow> (Inl (Error ''Order missing shipping address''), s)
      | Some address \<Rightarrow>
        (let names = splitFullName (fullName address);
             orElse = (\<lambda>v d. case v of None \<Rightarrow> d | Some x \<Rightarrow> x);
             email' = orElse (case customer order of None \<Rightarrow> None | Some c \<Rightarrow> emailAddress c)
                        ''no-reply@example.com'' in
         case buildPrintifyLineItems_004 outstanding (productMapping config) of
           Inl e \<Rightarrow> (Inl e, s)
         | Inr lineItems \<Rightarrow>
           (case printifyCreateOrder printify
                   \<lparr> external_id = code order,
                     label = Some (''Vendure order '' @ code order),
                     line_items = lineItems,
                     shipping_method = shippingMethod config,
                     send_shipping_notification = False,
                     address_to =
                       \<lparr> first_name = fst names,
                         last_name = snd names,
                         email = email',
                         phone = phoneNumber address,
                         country = orElse (countryCode address) ''US'',
                         region = province address,
                         address1 = orElse (streetLine1 address) ''Unknown address line 1'',
                         address2 = streetLine2 address,
                         city_to = orElse (city address) ''Unknown city'',
                         zip_to = orElse (postalCode address) ''00000'' \<rparr>,
                     metadata = [(''vendureOrderId'', id_order order),
                                 (''vendureOrderCode'', code order)] \<rparr> s of
              (Inl e, s1) \<Rightarrow> (Inl e, s1)
            | (Inr printifyOrder, s1) \<Rightarrow>
                (Inr (), notify (JobPrintifyCreated (code order) (id_po printifyOrder)
                                   (status_po printifyOrder)) s1))))"

text \<open>
  The accumulators of the loop: the count of successes, the failures (order code and
  reason) and the dry-run notes (order code and number of outstanding lines).
\<close>

record JobTotals =
  successCount :: int
  failures :: "(string \<times> string) list"
  dryRunNotes :: "(string \<times> nat) list"

text \<open>One iteration of the loop (lines 131-231).\<close>

definition processOrder_004 ::
  "'w backend \<Rightarrow> (CreatePrintifyOrderInput \<Rightarrow> 'w \<Rightarrow> (error + PrintifyOrderResponse) \<times> 'w) option \<Rightarrow>
   Config \<Rightarrow> bool \<Rightarrow> OrderSummary \<Rightarrow> JobTotals \<Rightarrow> 'w cstate \<Rightarrow> JobTotals \<times> 'w cstate" where
  "processOrder_004 be printify config canVendureFulfill order totals s =
     (let outstanding = getOutstandingFulfillmentLines order;
          failed = (\<lambda>reason. totals \<lparr> failures := failures totals @ [(code order, reason)] \<rparr>) in
      if outstanding = [] then (totals, s)
      else if dryRun config then
        (totals \<lparr> dryRunNotes := dryRunNotes totals @ [(code order, length outstanding)] \<rparr>, s)
      else
        (case (case printify of
                 None \<Rightarrow> (Inr (), s)
               | Some api \<Rightarrow> sendToPrintify_004 api config order outstanding s) of
           (Inl e, s1) \<Rightarrow>
             (failed (message_of e), notify (JobPrintifyFailed (code order) (message_of e)) s1)
         | (Inr u, s1) \<Rightarrow>
             if \<not> canVendureFulfill then
               (failed ''Vendure Admin API does not support createFulfillment'',
                notify (JobOrderSkipped (code order)) s1)
             else
               (case createFulfillment be
                       \<lparr> orderId = id_order order,
                         lines_arg = map (\<lambda>l. \<lparr> orderLineId_in = orderLineId l,
                                                 quantity_in = quantity_out l \<rparr>) outstanding,
                         handlerCode = fulfillmentHandlerCode config,
                         method_arg = Some (fulfillmentMethod config),
                         trackingCode_arg = None,
                         customFields = None \<rparr> s1 of
                  (Inl e, s2) \<Rightarrow>
                    (failed (message_of e), notify (JobOrderFailed (code order) (message_of e)) s2)
                | (Inr (CreateSuccess fid st m), s2) \<Rightarrow>
                    (totals \<lparr> successCount := successCount totals + 1 \<rparr>,
                     notify (JobOrderFulfilled (code order) fid st) s2)
                | (Inr (CreateFailure msg), s2) \<Rightarrow>
                    (failed msg, notify (JobOrderFailed (code order) msg) s2))))"

fun processOrders_004 ::
  "'w backend \<Rightarrow> (CreatePrintifyOrderInput \<Rightarrow> 'w \<Rightarrow> (error + PrintifyOrderResponse) \<times> 'w) option \<Rightarrow>
   Config \<Rightarrow> bool \<Rightarrow> OrderSummary list \<Rightarrow> JobTotals \<Rightarrow> 'w cstate \<Rightarrow> JobTotals \<times> 'w cstate" where
  "processOrders_004 be printify config canVendureFulfill [] totals s = (totals, s)"
| "processOrders_004 be printify config canVendureFulfill (order # rest) totals s =
     (case processOrder_004 be printify config canVendureFulfill order totals s of
        (totals', s') \<Rightarrow> processOrders_004 be printify config canVendureFulfill rest totals' s')"

text \<open>
  \<open>handler\<close> (lines 72-259). The partner client is mocked when \<open>mockApi\<close> or the dry run
  is set; either way its replies come from \<open>printifyApi\<close>.
\<close>

definition handler_004 ::
  "'w backend \<Rightarrow> (CreatePrintifyOrderInput \<Rightarrow> 'w \<Rightarrow> (error + PrintifyOrderResponse) \<times> 'w) \<Rightarrow>
   error + Config \<Rightarrow> JobRequest \<Rightarrow> 'w cstate \<Rightarrow> (response \<times> response_body) \<times> 'w cstate" where
  "handler_004 be printifyApi loaded req s =
     (if method_job req \<noteq> Some ''POST'' then
        ((\<lparr> status = 405, allow = Some ''POST'' \<rparr>, ErrorBody ''Method not allowed. Use POST.''), s)
      else
        (case loaded of
           Inl e \<Rightarrow> ((\<lparr> status = 500, allow = None \<rparr>, ErrorBody (message_of e)), s)
         | Inr config \<Rightarrow>
           if \<not> validateSecret req (secret_job config) then
             ((\<lparr> status = 401, allow = None \<rparr>, ErrorBody ''Invalid or missing automation secret.''), s)
           else
             (let printify = (if enabled_printify config then Some printifyApi else None);
                  failed = (\<lambda>e s'. ((\<lparr> status = 500, allow = None \<rparr>, ErrorBody (message_of e)),
                                     notify (JobFailed (message_of e)) s')) in
              case login be (username config) (password config) (notify JobStarting s) of
                (Inl e, s1) \<Rightarrow> failed e s1
              | (Inr u, s1) \<Rightarrow>
                (case supportsCreateFulfillment be s1 of
                   (canVendureFulfill, s2) \<Rightarrow>
                   (case fetchOrders be STATES_TO_FULFILL (maxOrdersPerRun config)
                           (if canVendureFulfill then s2 else notify JobUnsupported s2) of
                      (Inl e, s3) \<Rightarrow> failed e s3
                    | (Inr orders, s3) \<Rightarrow>
                        if orders = [] then
                          ((\<lparr> status = 200, allow = None \<rparr>, NoOrdersBody), notify JobNoOrders s3)
                        else
                          (case processOrders_004 be printify config canVendureFulfill orders
                                  \<lparr> successCount = 0, failures = [], dryRunNotes = [] \<rparr> s3 of
                             (totals, s4) \<Rightarrow>
                               if dryRun config then
                                 ((\<lparr> status = 200, allow = None \<rparr>, DryRunBody (dryRunNotes totals)),
                                  notify (JobCompletedDryRun (map fst (dryRunNotes totals))) s4)
                               else
                                 ((\<lparr> status = 200, allow = None \<rparr>,
                                   SummaryBody (successCount totals) (failures totals)),
                                  notify (JobCompleted (successCount totals) (failures totals)) s4)))))))"

section \<open>Vocabulary of the statements\<close>

text \<open>
  The first mutation request of \<open>createFulfillment\<close> for the mutation names the probe
  returned: the modern shape when \<open>createFulfillment\<close> is exposed, else the legacy shape
  when \<open>addFulfillmentToOrder\<close> is, else none.
\<close>

definition firstAttempt :: "string list \<Rightarrow> CreateFulfillmentArgs \<Rightarrow> gql_request option" where
  "firstAttempt names input =
     (if ''createFulfillment'' \<in> set names then
        Some (CreateFulfillmentReq
                \<lparr> orderId_in = orderId input, lines_in = lines_arg input,
                  handlerCode_in = handlerCode input, method_in = method_arg input,
                  trackingCode_in = trackingCode_arg input, customFields_in = customFields input \<rparr>)
      else if ''addFulfillmentToOrder'' \<in> set names then
        Some (AddFulfillmentToOrderReq
                \<lparr> lines_leg = lines_arg input,
                  handler_leg = \<lparr> code_h = handlerCode input, arguments_h = handlerArgs input \<rparr>,
                  customFields_leg = customFields input \<rparr>)
      else None)"

text \<open>The same request with another handler code, every other field unchanged.\<close>

fun withHandlerCode :: "string \<Rightarrow> gql_request \<Rightarrow> gql_request" where
  "withHandlerCode c (CreateFulfillmentReq inp) = CreateFulfillmentReq (inp\<lparr> handlerCode_in := c \<rparr>)"
| "withHandlerCode c (AddFulfillmentToOrderReq inp) =
     AddFulfillmentToOrderReq (inp\<lparr> handler_leg := (handler_leg inp)\<lparr> code_h := c \<rparr> \<rparr>)"
| "withHandlerCode c r = r"

text \<open>The backend's reply to a fulfillment-creation request of either shape.\<close>

fun creationReply :: "'w backend \<Rightarrow> gql_request \<Rightarrow> 'w \<Rightarrow> (error + FulfillmentUnion) \<times> 'w" where
  "creationReply be (CreateFulfillmentReq inp) w = createFulfillment_reply be inp w"
| "creationReply be (AddFulfillmentToOrderReq inp) w = addFulfillmentToOrder_reply be inp w"
| "creationReply be r w = (Inl (Error ''not a fulfillment-creation request''), w)"

text \<open>
  Two letters are the same without regard to case when they are equal or are the upper and
  the lower case of one ASCII letter. A pattern occurs in a text without regard to case
  when some stretch of the text has the pattern's length and the pattern's letters, place
  by place.
\<close>

definition sameLetter :: "char \<Rightarrow> char \<Rightarrow> bool" where
  "sameLetter a b =
     (a = b \<or> (a, b) \<in> set (zip ''ABCDEFGHIJKLMNOPQRSTUVWXYZ'' ''abcdefghijklmnopqrstuvwxyz'')
            \<or> (b, a) \<in> set (zip ''ABCDEFGHIJKLMNOPQRSTUVWXYZ'' ''abcdefghijklmnopqrstuvwxyz''))"

definition occursIgnoringCase :: "string \<Rightarrow> string \<Rightarrow> bool" where
  "occursIgnoringCase pat s =
     (\<exists>pre mid post. s = pre @ mid @ post \<and> list_all2 sameLetter mid pat)"

text \<open>
  The message of an error reply: its message and its transition error, those that are
  present and not empty, joined by \<open>space, em dash (U+2014), space\<close>; and
  \<open>Unknown fulfillment error\<close> when there is neither.
\<close>

definition errorText :: "string option \<Rightarrow> string option \<Rightarrow> string" where
  "errorText message transitionError =
     (let m = (case message of None \<Rightarrow> [] | Some x \<Rightarrow> x);
          t = (case transitionError of None \<Rightarrow> [] | Some x \<Rightarrow> x)
      in if m \<noteq> [] \<and> t \<noteq> [] then m @ [CHR 0x20, CHR 0xE2, CHR 0x80, CHR 0x94, CHR 0x20] @ t
         else if m \<noteq> [] then m
         else if t \<noteq> [] then t
         else ''Unknown fulfillment error'')"

text \<open>The lookup key of an outstanding line: its SKU, and its variant name when it has none.\<close>

definition lookupKey :: "OutstandingLine \<Rightarrow> string" where
  "lookupKey l = (case sku_out l of None \<Rightarrow> variantName l | Some k \<Rightarrow> k)"

text \<open>The orders with outstanding lines, and the failure recorded for each when the backend
  exposes no creation mutation.\<close>

definition actionable :: "OrderSummary list \<Rightarrow> OrderSummary list" where
  "actionable orders = filter (\<lambda>ord. getOutstandingFulfillmentLines ord \<noteq> []) orders"

definition unsupportedFailures :: "OrderSummary list \<Rightarrow> (string \<times> string) list" where
  "unsupportedFailures orders =
     map (\<lambda>ord. (code ord, ''Vendure Admin API does not support createFulfillment'')) orders"

section \<open>Concrete inputs\<close>

definition line_partial :: OrderLineSummary where
  "line_partial =
     \<lparr> id_line = ''L1'', quantity = 3, fulfilledQuantity = 1,
       productVariant = \<lparr> variantId_pv = ''V1'', sku_pv = Some ''TEE-RED-M'', name_pv = ''Red tee M'' \<rparr> \<rparr>"

definition line_done :: OrderLineSummary where
  "line_done =
     \<lparr> id_line = ''L2'', quantity = 2, fulfilledQuantity = 2,
       productVariant = \<lparr> variantId_pv = ''V2'', sku_pv = Some ''MUG-11'', name_pv = ''Mug 11oz'' \<rparr> \<rparr>"

definition order_two_lines :: OrderSummary where
  "order_two_lines =
     \<lparr> id_order = ''1'', code = ''ORD123'', state_order = PaymentSettled,
       createdAt = ''2024-01-01T00:00:00Z'', fulfillments = [],
       lines = [line_partial, line_done], shippingAddress = None, customer = None \<rparr>"

definition args_example :: CreateFulfillmentArgs where
  "args_example =
     \<lparr> orderId = ''1'', lines_arg = [\<lparr> orderLineId_in = ''L1'', quantity_in = 2 \<rparr>],
       handlerCode = ''printify-handler'', method_arg = Some ''Printify'',
       trackingCode_arg = None, customFields = None \<rparr>"

text \<open>
  A backend whose state counts the requests served. It exposes the mutation names
  \<open>names\<close>, knows only the handler \<open>manual-fulfillment\<close>, holds the orders \<open>orders\<close> and
  accepts every transition and tracking update.
\<close>

definition backend_example :: "string list \<Rightarrow> RawOrder list \<Rightarrow> nat backend" where
  "backend_example names orders =
     \<lparr> introspect_reply = (\<lambda>w. (Inr (Some names), Suc w)),
       createFulfillment_reply = (\<lambda>inp w.
          (if handlerCode_in inp = ''manual-fulfillment''
           then Inr (FulfillmentSuccess ''F1'' ''Pending'' (method_in inp))
           else Inr (FulfillmentError ''InvalidFulfillmentHandlerError''
                       (Some ''No FulfillmentHandler with the given code'') None
                       (Some ''INVALID_FULFILLMENT_HANDLER_ERROR'')), Suc w)),
       addFulfillmentToOrder_reply = (\<lambda>inp w.
          (if code_h (handler_leg inp) = ''manual-fulfillment''
           then Inr (FulfillmentSuccess ''F1'' ''Pending'' None)
           else Inr (FulfillmentError ''InvalidFulfillmentHandlerError''
                       (Some ''No FulfillmentHandler with the given code'') None
                       (Some ''INVALID_FULFILLMENT_HANDLER_ERROR'')), Suc w)),
       transition_reply = (\<lambda>fid st w.
          (Inr \<lparr> typename_r = ''Fulfillment'', message_r = None, transitionError_r = None \<rparr>, Suc w)),
       updateTracking_reply = (\<lambda>fid tc m w.
          (Inr \<lparr> typename_r = ''Fulfillment'', message_r = None, transitionError_r = None \<rparr>, Suc w)),
       orderByCode_reply = (\<lambda>c w. (Inr (find (\<lambda>ord. code_ro ord = c) orders), Suc w)),
       orders_reply = (\<lambda>n w. (Inr (take (nat n) orders), Suc w)),
       login_reply = (\<lambda>u p w. (Inr (), Suc w)) \<rparr>"

text \<open>
  A backend that answers the first creation request after the probe with \<open>first\<close> and
  every later one with \<open>second\<close>, whatever the request.
\<close>

definition backend_scripted :: "string list \<Rightarrow> FulfillmentUnion \<Rightarrow> FulfillmentUnion \<Rightarrow> nat backend" where
  "backend_scripted names first second =
     (backend_example names [])
       \<lparr> createFulfillment_reply := (\<lambda>inp w. (Inr (if w = 1 then first else second), Suc w)),
         addFulfillmentToOrder_reply := (\<lambda>inp w. (Inr (if w = 1 then first else second), Suc w)) \<rparr>"

text \<open>
  The value \<open>crypto\<close> computes for the secret \<open>whsec\<close> and the body \<open>{}\<close>; the stand-in
  returns it for every secret and body.
\<close>

definition hmac_fixture :: "string \<Rightarrow> string \<Rightarrow> string" where
  "hmac_fixture sec body = ''ae6341ea7f40a435db57d903d02cba19085efb8a913f8cfbd8cff3d7df0c7a2d''"

text \<open>A parser that reads the one text \<open>text\<close>, as the value \<open>v\<close>, and throws on any other.\<close>

definition parse_as :: "string \<Rightarrow> 'a \<Rightarrow> string \<Rightarrow> 'a parsed" where
  "parse_as text v b = (if b = text then Parsed v else ParseThrows)"

definition config_example :: Config where
  "config_example =
     \<lparr> username = ''admin'', password = ''pw'', fulfillmentHandlerCode = ''printify-handler'',
       fulfillmentMethod = ''printify'', maxOrdersPerRun = 20, dryRun = False,
       secret_job = None, enabled_printify = False, shippingMethod = None,
       webhookSecret = None, productMapping = Map.empty \<rparr>"

definition raw_line :: RawOrderLine where
  "raw_line =
     \<lparr> id_raw = ''L1'', quantity_raw = 3,
       productVariant_raw = \<lparr> variantId_pv = ''V1'', sku_pv = Some ''TEE-RED-M'', name_pv = ''Red tee M'' \<rparr>,
       fulfillmentLines_raw = Some [Some 1] \<rparr>"

text \<open>An order with one fulfillment, and an order with none.\<close>

definition raw_order_fulfilled :: RawOrder where
  "raw_order_fulfilled =
     \<lparr> id_ro = ''1'', code_ro = ''ORD123'', state_ro = PartiallyFulfilled,
       createdAt_ro = ''2024-01-01T00:00:00Z'',
       fulfillments_ro = [\<lparr> id_ful = ''F1'', state_ful = ''Pending'', trackingCode_ful = None \<rparr>],
       lines_ro = [raw_line], shippingAddress_ro = None, customer_ro = None \<rparr>"

definition raw_order_unfulfilled :: RawOrder where
  "raw_order_unfulfilled =
     \<lparr> id_ro = ''2'', code_ro = ''ORD124'', state_ro = PaymentSettled,
       createdAt_ro = ''2024-01-02T00:00:00Z'', fulfillments_ro = [],
       lines_ro = [raw_line], shippingAddress_ro = None, customer_ro = None \<rparr>"

text \<open>
  The event of the specification's example, for a given order code:
  \<open>{event: "order:shipment:created", data: {external_id: c, shipments: [{carrier: "DHL",
  tracking_number: "T1"}]}}\<close>, and its text.
\<close>

definition payload_shipment :: "string \<Rightarrow> PrintifyWebhookPayload" where
  "payload_shipment c =
     \<lparr> event = Some ''order:shipment:created'',
       data_payload = Some \<lparr> id_data = None, external_id_data = Some c,
                             shipments_data = Some [\<lparr> carrier = Some ''DHL'',
                                                       tracking_number = Some ''T1'' \<rparr>] \<rparr> \<rparr>"

definition body_shipment :: "string \<Rightarrow> string" where
  "body_shipment c =
     ''{'' @ quoted ''event'' @ '':'' @ quoted ''order:shipment:created'' @ '','' @ quoted ''data''
     @ '':{'' @ quoted ''external_id'' @ '':'' @ quoted c @ '','' @ quoted ''shipments'' @ '':[{''
     @ quoted ''carrier'' @ '':'' @ quoted ''DHL'' @ '','' @ quoted ''tracking_number'' @ '':''
     @ quoted ''T1'' @ ''}]}}''"

text \<open>An event the map does not know, without and with a correlation id.\<close>

definition payload_unknown :: "string option \<Rightarrow> PrintifyWebhookPayload" where
  "payload_unknown c =
     \<lparr> event = Some ''order:created'',
       data_payload = Some \<lparr> id_data = None, external_id_data = c, shipments_data = None \<rparr> \<rparr>"

definition body_unknown :: "string option \<Rightarrow> string" where
  "body_unknown c =
     ''{'' @ quoted ''event'' @ '':'' @ quoted ''order:created'' @ '','' @ quoted ''data'' @ '':{''
     @ (case c of None \<Rightarrow> [] | Some x \<Rightarrow> quoted ''external_id'' @ '':'' @ quoted x) @ ''}}''"

text \<open>
  An event named after a member that every object inherits, \<open>{event: "constructor",
  data: {external_id: c}}\<close>, and the same in the flat shape of the library function.
\<close>

definition payload_inherited :: "string \<Rightarrow> PrintifyWebhookPayload" where
  "payload_inherited c =
     \<lparr> event = Some ''constructor'',
       data_payload = Some \<lparr> id_data = None, external_id_data = Some c, shipments_data = None \<rparr> \<rparr>"

definition body_inherited :: "string \<Rightarrow> string" where
  "body_inherited c =
     ''{'' @ quoted ''event'' @ '':'' @ quoted ''constructor'' @ '','' @ quoted ''data'' @ '':{''
     @ quoted ''external_id'' @ '':'' @ quoted c @ ''}}''"

definition event_inherited :: "string \<Rightarrow> PrintifyWebhookEvent" where
  "event_inherited c =
     \<lparr> type_evt = Some ''constructor'', status_evt = None, external_id_evt = Some c,
       shipments_evt = None \<rparr>"

definition body_inherited_flat :: "string \<Rightarrow> string" where
  "body_inherited_flat c =
     ''{'' @ quoted ''type'' @ '':'' @ quoted ''constructor'' @ '','' @ quoted ''external_id''
     @ '':'' @ quoted c @ ''}''"

text \<open>A parser that reads the text \<open>null\<close> as \<open>null\<close> and throws on any other.\<close>

definition parse_null :: "string \<Rightarrow> 'a parsed" where
  "parse_null b = (if b = ''null'' then ParsedNull else ParseThrows)"

definition post :: "string \<Rightarrow> RequestLike" where
  "post body = \<lparr> method_req = Some ''POST'', headers_req = Map.empty, body_req = Some body \<rparr>"

text \<open>The same shipment in the shape the library function reads: a flat event.\<close>

definition event_shipped :: "string \<Rightarrow> PrintifyWebhookEvent" where
  "event_shipped c =
     \<lparr> type_evt = Some ''order:shipped'', status_evt = None, external_id_evt = Some c,
       shipments_evt = Some [\<lparr> carrier = Some ''DHL'', tracking_number = Some ''T1'' \<rparr>] \<rparr>"

definition body_shipped :: "string \<Rightarrow> string" where
  "body_shipped c =
     ''{'' @ quoted ''type'' @ '':'' @ quoted ''order:shipped'' @ '','' @ quoted ''external_id''
     @ '':'' @ quoted c @ '','' @ quoted ''shipments'' @ '':[{'' @ quoted ''carrier'' @ '':''
     @ quoted ''DHL'' @ '','' @ quoted ''tracking_number'' @ '':'' @ quoted ''T1'' @ ''}]}''"

text \<open>
  A configuration with a webhook secret and a job secret, and a request that carries the
  job secret in \<open>x-automation-secret\<close> and no signature.
\<close>

definition config_secrets :: Config where
  "config_secrets = config_example \<lparr> secret_job := Some ''job-secret'', webhookSecret := Some ''whsec'' \<rparr>"


text \<open>
  An order whose only line has no SKU, with a shipping address and no customer, and a
  mapping table keyed by the variant name of that line.
\<close>

definition address_example :: ShippingAddress where
  "address_example =
     \<lparr> fullName = Some ''Jane Doe'', company = None, streetLine1 = Some ''1 Main St'',
       streetLine2 = None, city = Some ''Springfield'', province = Some ''IL'',
       provinceCode = None, postalCode = Some ''62701'', countryCode = Some ''US'',
       phoneNumber = None \<rparr>"

definition raw_order_no_sku :: RawOrder where
  "raw_order_no_sku =
     \<lparr> id_ro = ''3'', code_ro = ''ORD125'', state_ro = PaymentSettled,
       createdAt_ro = ''2024-01-03T00:00:00Z'', fulfillments_ro = [],
       lines_ro = [\<lparr> id_raw = ''L7'', quantity_raw = 2,
                     productVariant_raw = \<lparr> variantId_pv = ''V7'', sku_pv = None, name_pv = ''Blue mug'' \<rparr>,
                     fulfillmentLines_raw = None \<rparr>],
       shippingAddress_ro = Some address_example, customer_ro = None \<rparr>"

definition mapping_by_name :: "string \<rightharpoonup> MappingEntry" where
  "mapping_by_name = [''Blue mug'' \<mapsto> \<lparr> productId_m = 11, variantId_m = 22 \<rparr>]"

text \<open>An order with a SKU, an address and no customer, and a mapping table with that SKU.\<close>

definition raw_order_sku :: RawOrder where
  "raw_order_sku =
     \<lparr> id_ro = ''4'', code_ro = ''ORD126'', state_ro = PaymentSettled,
       createdAt_ro = ''2024-01-04T00:00:00Z'', fulfillments_ro = [],
       lines_ro = [\<lparr> id_raw = ''L8'', quantity_raw = 1,
                     productVariant_raw = \<lparr> variantId_pv = ''V8'', sku_pv = Some ''MUG-11'',
                                            name_pv = ''Mug 11oz'' \<rparr>,
                     fulfillmentLines_raw = None \<rparr>],
       shippingAddress_ro = Some address_example, customer_ro = None \<rparr>"

definition mapping_by_sku :: "string \<rightharpoonup> MappingEntry" where
  "mapping_by_sku = [''MUG-11'' \<mapsto> \<lparr> productId_m = 11, variantId_m = 22 \<rparr>]"

definition config_printify :: Config where
  "config_printify = config_example \<lparr> enabled_printify := True, productMapping := mapping_by_sku \<rparr>"

text \<open>A partner that accepts every order, over the same counting state.\<close>

definition printify_example ::
  "CreatePrintifyOrderInput \<Rightarrow> nat \<Rightarrow> (error + PrintifyOrderResponse) \<times> nat" where
  "printify_example inp w = (Inr \<lparr> id_po = ''P1'', status_po = ''pending'' \<rparr>, Suc w)"

definition post_job :: JobRequest where
  "post_job = \<lparr> method_job = Some ''POST'', query_job = Map.empty, headers_job = Map.empty \<rparr>"

section \<open>Outstanding lines\<close>

lemma outstanding_lines_filter_map:
  "map the (filter (\<lambda>l. l \<noteq> None) (map outstandingOrNull ls)) =
   map (\<lambda>l. \<lparr> orderLineId = id_line l,
               quantity_out = quantity l - fulfilledQuantity l,
               sku_out = sku_pv (productVariant l),
               variantName = name_pv (productVariant l) \<rparr>)
       (filter (\<lambda>l. 0 < quantity l - fulfilledQuantity l) ls)"
  by (induction ls) (simp_all add: outstandingOrNull_def Let_def)

lemma outstanding_sum_aux:
  "list_all (\<lambda>l. fulfilledQuantity l \<le> quantity l) ls \<Longrightarrow>
   sum_list (map (\<lambda>l. quantity l - fulfilledQuantity l)
                 (filter (\<lambda>l. 0 < quantity l - fulfilledQuantity l) ls)) =
   sum_list (map quantity ls) - sum_list (map fulfilledQuantity ls)"
  by (induction ls) auto

text \<open>
  C2. For an order whose lines each satisfy \<open>0 \<le> fulfilledQuantity \<le> quantity\<close>,
  \<open>getOutstandingFulfillmentLines\<close> returns exactly the lines whose outstanding quantity
  \<open>quantity - fulfilledQuantity\<close> is strictly positive, in the order of the order's
  lines, each entry carrying the outstanding quantity (and the line's id, SKU and variant
  name); every returned quantity is positive, and the returned quantities add up to the
  sum of the ordered quantities minus the sum of the fulfilled quantities.
\<close>

theorem outstanding_lines_exact:
  assumes inv: "\<forall>l \<in> set (lines order). 0 \<le> fulfilledQuantity l \<and> fulfilledQuantity l \<le> quantity l"
  shows "getOutstandingFulfillmentLines order =
           map (\<lambda>l. \<lparr> orderLineId = id_line l,
                       quantity_out = quantity l - fulfilledQuantity l,
                       sku_out = sku_pv (productVariant l),
                       variantName = name_pv (productVariant l) \<rparr>)
               (filter (\<lambda>l. 0 < quantity l - fulfilledQuantity l) (lines order))
         \<and> (\<forall>out \<in> set (getOutstandingFulfillmentLines order). 0 < quantity_out out)
         \<and> sum_list (map quantity_out (getOutstandingFulfillmentLines order)) =
             sum_list (map quantity (lines order)) - sum_list (map fulfilledQuantity (lines order))"
proof -
  have eq: "getOutstandingFulfillmentLines order =
           map (\<lambda>l. \<lparr> orderLineId = id_line l,
                       quantity_out = quantity l - fulfilledQuantity l,
                       sku_out = sku_pv (productVariant l),
                       variantName = name_pv (productVariant l) \<rparr>)
               (filter (\<lambda>l. 0 < quantity l - fulfilledQuantity l) (lines order))"
    unfolding getOutstandingFulfillmentLines_def by (rule outstanding_lines_filter_map)
  have pos: "\<forall>out \<in> set (getOutstandingFulfillmentLines order). 0 < quantity_out out"
    unfolding eq by auto
  from inv have "list_all (\<lambda>l. fulfilledQuantity l \<le> quantity l) (lines order)"
    by (simp add: list_all_iff)
  then have "sum_list (map quantity_out (getOutstandingFulfillmentLines order)) =
             sum_list (map quantity (lines order)) - sum_list (map fulfilledQuantity (lines order))"
    unfolding eq using outstanding_sum_aux by (simp add: comp_def)
  with eq pos show ?thesis by blast
qed

theorem outstanding_lines_exact_witness:
  "list_all (\<lambda>l. 0 \<le> fulfilledQuantity l \<and> fulfilledQuantity l \<le> quantity l) (lines order_two_lines)
   \<and> getOutstandingFulfillmentLines order_two_lines =
       [\<lparr> orderLineId = ''L1'', quantity_out = 2, sku_out = Some ''TEE-RED-M'',
          variantName = ''Red tee M'' \<rparr>]
   \<and> sum_list (map quantity_out (getOutstandingFulfillmentLines order_two_lines)) = 5 - 3"
proof -
  have h: "\<forall>l \<in> set (lines order_two_lines). 0 \<le> fulfilledQuantity l \<and> fulfilledQuantity l \<le> quantity l"
    by (simp add: order_two_lines_def line_partial_def line_done_def)
  from outstanding_lines_exact [OF h] h show ?thesis
    by (simp add: order_two_lines_def line_partial_def line_done_def)
qed

section \<open>Fulfillment creation\<close>

subsection \<open>The pattern test and the error message\<close>

text \<open>
  The two helpers of \<open>createFulfillment\<close> compute what the statements below say in
  words: the regular-expression test is the occurrence of the pattern without regard to
  case, and the message of a failure is the error's message and transition error joined.
\<close>

lemma toLowerCase_char_eq_iff:
  "toLowerCase_char a = toLowerCase_char b \<longleftrightarrow> sameLetter a b"
  unfolding toLowerCase_char_def sameLetter_def
  by (simp split: option.splits) blast


lemma startsWith_iff: "startsWith s p \<longleftrightarrow> (\<exists>post. s = p @ post)"
  by (induction s p rule: startsWith.induct) auto

lemma includes_str_iff: "includes_str s p \<longleftrightarrow> (\<exists>pre post. s = pre @ p @ post)"
proof (induction s)
  case Nil
  then show ?case by auto
next
  case (Cons c cs)
  show ?case
  proof
    assume "includes_str (c # cs) p"
    then consider "startsWith (c # cs) p" | "includes_str cs p" by auto
    then show "\<exists>pre post. c # cs = pre @ p @ post"
    proof cases
      case 1
      then obtain post where "c # cs = p @ post" by (auto simp: startsWith_iff)
      then have "c # cs = [] @ p @ post" by simp
      then show ?thesis by blast
    next
      case 2
      with Cons obtain pre post where "cs = pre @ p @ post" by auto
      then have "c # cs = (c # pre) @ p @ post" by simp
      then show ?thesis by blast
    qed
  next
    assume "\<exists>pre post. c # cs = pre @ p @ post"
    then obtain pre post where e: "c # cs = pre @ p @ post" by blast
    show "includes_str (c # cs) p"
    proof (cases pre)
      case Nil
      with e have "startsWith (c # cs) p" by (auto simp: startsWith_iff)
      then show ?thesis by simp
    next
      case (Cons x xs)
      with e have "cs = xs @ p @ post" by simp
      with Cons.IH have "includes_str cs p" by blast
      then show ?thesis by simp
    qed
  qed
qed

lemma map_lower_eq_iff:
  "map toLowerCase_char xs = map toLowerCase_char ys \<longleftrightarrow> list_all2 sameLetter xs ys"
proof -
  have "map toLowerCase_char xs = map toLowerCase_char ys
        \<longleftrightarrow> list_all2 (\<lambda>a b. toLowerCase_char a = toLowerCase_char b) xs ys"
    by (induction xs arbitrary: ys) (auto simp: list_all2_Cons1)
  also have "\<dots> \<longleftrightarrow> list_all2 sameLetter xs ys"
    by (simp add: toLowerCase_char_eq_iff [abs_def])
  finally show ?thesis .
qed

lemma regex_test_i_iff: "regex_test_i pat s \<longleftrightarrow> occursIgnoringCase pat s"
proof
  assume "regex_test_i pat s"
  then obtain pre post where e: "map toLowerCase_char s = pre @ map toLowerCase_char pat @ post"
    by (auto simp: regex_test_i_def toLowerCase_def includes_str_iff)
  then obtain a r where s1: "s = a @ r" "pre = map toLowerCase_char a"
      "map toLowerCase_char pat @ post = map toLowerCase_char r"
    unfolding map_eq_append_conv by blast
  from s1(3) obtain m b where s2: "r = m @ b" "map toLowerCase_char pat = map toLowerCase_char m"
    unfolding append_eq_map_conv by blast
  from s2(2) have "list_all2 sameLetter m pat"
    using map_lower_eq_iff [of m pat] by simp
  with s1(1) s2(1) have "s = a @ m @ b \<and> list_all2 sameLetter m pat"
    by simp
  then show "occursIgnoringCase pat s"
    unfolding occursIgnoringCase_def by blast
next
  assume "occursIgnoringCase pat s"
  then obtain pre mid post where "s = pre @ mid @ post" "list_all2 sameLetter mid pat"
    unfolding occursIgnoringCase_def by blast
  then have "map toLowerCase_char s
       = map toLowerCase_char pre @ map toLowerCase_char pat @ map toLowerCase_char post"
    by (simp add: map_lower_eq_iff)
  then show "regex_test_i pat s"
    unfolding regex_test_i_def toLowerCase_def includes_str_iff by blast
qed


lemma fulfillmentErrorMessage_eq: "fulfillmentErrorMessage message transitionError = errorText message transitionError"
  by (cases message; cases transitionError)
     (simp_all add: fulfillmentErrorMessage_def joinErrorParts_def errorText_def em_dash_sep_def Let_def)

subsection \<open>The retry\<close>

lemma createFulfillment_modern:
  assumes intro: "introspect_reply be w0 = (Inr intro, w1)"
    and nm: "(case intro of None \<Rightarrow> [] | Some fs \<Rightarrow> fs) = names"
    and names: "''createFulfillment'' \<in> set names"
    and first: "createFulfillment_reply be
                  \<lparr> orderId_in = orderId input, lines_in = lines_arg input,
                    handlerCode_in = handlerCode input, method_in = method_arg input,
                    trackingCode_in = trackingCode_arg input, customFields_in = customFields input \<rparr> w1
                = (Inr (FulfillmentError tn msg terr ec), w2)"
  shows "createFulfillment be input (w0, tr) =
     (if isInvalidHandler ec msg
      then (case createFulfillment_reply be
                  \<lparr> orderId_in = orderId input, lines_in = lines_arg input,
                    handlerCode_in = ''manual-fulfillment'', method_in = method_arg input,
                    trackingCode_in = trackingCode_arg input, customFields_in = customFields input \<rparr> w2 of
              (r, w3) \<Rightarrow>
                (case r of
                   Inl e \<Rightarrow> Inl e
                 | Inr (FulfillmentSuccess fid st m) \<Rightarrow> Inr (CreateSuccess fid st m)
                 | Inr (FulfillmentError tn' msg' terr' ec') \<Rightarrow>
                     Inr (CreateFailure (errorText msg' terr')),
                 (w3, tr @ [GraphQL IntrospectMutations,
                     GraphQL (CreateFulfillmentReq
                       \<lparr> orderId_in = orderId input, lines_in = lines_arg input,
                    handlerCode_in = handlerCode input, method_in = method_arg input,
                    trackingCode_in = trackingCode_arg input, customFields_in = customFields input \<rparr>),
                     GraphQL (CreateFulfillmentReq
                       \<lparr> orderId_in = orderId input, lines_in = lines_arg input,
                    handlerCode_in = ''manual-fulfillment'', method_in = method_arg input,
                    trackingCode_in = trackingCode_arg input, customFields_in = customFields input \<rparr>)])))
      else (Inr (CreateFailure (errorText msg terr)),
            (w2, tr @ [GraphQL IntrospectMutations,
                     GraphQL (CreateFulfillmentReq
                       \<lparr> orderId_in = orderId input, lines_in = lines_arg input,
                    handlerCode_in = handlerCode input, method_in = method_arg input,
                    trackingCode_in = trackingCode_arg input, customFields_in = customFields input \<rparr>)])))"
proof (cases "isInvalidHandler ec msg")
  case False
  then show ?thesis
    using names
    by (simp add: createFulfillment_def graphql_introspect_def graphql_createFulfillment_def intro nm first fulfillmentErrorMessage_eq)
next
  case True
  obtain r w3 where retry: "createFulfillment_reply be
                  \<lparr> orderId_in = orderId input, lines_in = lines_arg input,
                    handlerCode_in = ''manual-fulfillment'', method_in = method_arg input,
                    trackingCode_in = trackingCode_arg input, customFields_in = customFields input \<rparr> w2 = (r, w3)"
    by (cases "createFulfillment_reply be
                  \<lparr> orderId_in = orderId input, lines_in = lines_arg input,
                    handlerCode_in = ''manual-fulfillment'', method_in = method_arg input,
                    trackingCode_in = trackingCode_arg input, customFields_in = customFields input \<rparr> w2")
  show ?thesis
  proof (cases r)
    case (Inl e)
    then show ?thesis
      using names True
      by (simp add: createFulfillment_def graphql_introspect_def graphql_createFulfillment_def intro nm first retry fulfillmentErrorMessage_eq)
  next
    case (Inr u)
    then show ?thesis
      using names True
      by (cases u)
         (simp_all add: createFulfillment_def graphql_introspect_def graphql_createFulfillment_def intro nm first retry fulfillmentErrorMessage_eq)
  qed
qed

lemma createFulfillment_legacy:
  assumes intro: "introspect_reply be w0 = (Inr intro, w1)"
    and nm: "(case intro of None \<Rightarrow> [] | Some fs \<Rightarrow> fs) = names"
    and names: "''createFulfillment'' \<notin> set names \<and> ''addFulfillmentToOrder'' \<in> set names"
    and first: "addFulfillmentToOrder_reply be
                  \<lparr> lines_leg = lines_arg input,
                    handler_leg = \<lparr> code_h = handlerCode input, arguments_h = handlerArgs input \<rparr>,
                    customFields_leg = customFields input \<rparr> w1
                = (Inr (FulfillmentError tn msg terr ec), w2)"
  shows "createFulfillment be input (w0, tr) =
     (if isInvalidHandler ec msg
      then (case addFulfillmentToOrder_reply be
                  \<lparr> lines_leg = lines_arg input,
                    handler_leg = \<lparr> code_h = ''manual-fulfillment'', arguments_h = handlerArgs input \<rparr>,
                    customFields_leg = customFields input \<rparr> w2 of
              (r, w3) \<Rightarrow>
                (case r of
                   Inl e \<Rightarrow> Inl e
                 | Inr (FulfillmentSuccess fid st m) \<Rightarrow> Inr (CreateSuccess fid st m)
                 | Inr (FulfillmentError tn' msg' terr' ec') \<Rightarrow>
                     Inr (CreateFailure (errorText msg' terr')),
                 (w3, tr @ [GraphQL IntrospectMutations,
                     GraphQL (AddFulfillmentToOrderReq
                       \<lparr> lines_leg = lines_arg input,
                    handler_leg = \<lparr> code_h = handlerCode input, arguments_h = handlerArgs input \<rparr>,
                    customFields_leg = customFields input \<rparr>),
                     GraphQL (AddFulfillmentToOrderReq
                       \<lparr> lines_leg = lines_arg input,
                    handler_leg = \<lparr> code_h = ''manual-fulfillment'', arguments_h = handlerArgs input \<rparr>,
                    customFields_leg = customFields input \<rparr>)])))
      else (Inr (CreateFailure (errorText msg terr)),
            (w2, tr @ [GraphQL IntrospectMutations,
                     GraphQL (AddFulfillmentToOrderReq
                       \<lparr> lines_leg = lines_arg input,
                    handler_leg = \<lparr> code_h = handlerCode input, arguments_h = handlerArgs input \<rparr>,
                    customFields_leg = customFields input \<rparr>)])))"
proof (cases "isInvalidHandler ec msg")
  case False
  then show ?thesis
    using names
    by (simp add: createFulfillment_def graphql_introspect_def graphql_addFulfillmentToOrder_def intro nm first fulfillmentErrorMessage_eq)
next
  case True
  obtain r w3 where retry: "addFulfillmentToOrder_reply be
                  \<lparr> lines_leg = lines_arg input,
                    handler_leg = \<lparr> code_h = ''manual-fulfillment'', arguments_h = handlerArgs input \<rparr>,
                    customFields_leg = customFields input \<rparr> w2 = (r, w3)"
    by (cases "addFulfillmentToOrder_reply be
                  \<lparr> lines_leg = lines_arg input,
                    handler_leg = \<lparr> code_h = ''manual-fulfillment'', arguments_h = handlerArgs input \<rparr>,
                    customFields_leg = customFields input \<rparr> w2")
  show ?thesis
  proof (cases r)
    case (Inl e)
    then show ?thesis
      using names True
      by (simp add: createFulfillment_def graphql_introspect_def graphql_addFulfillmentToOrder_def intro nm first retry fulfillmentErrorMessage_eq)
  next
    case (Inr u)
    then show ?thesis
      using names True
      by (cases u)
         (simp_all add: createFulfillment_def graphql_introspect_def graphql_addFulfillmentToOrder_def intro nm first retry fulfillmentErrorMessage_eq)
  qed
qed

text \<open>
  C1. Let the capability probe succeed and expose one of the two creation mutations, and
  let the first creation request \<open>req\<close> be answered by a structured error (any reply that
  is not a \<open>Fulfillment\<close>). If \<open>INVALID_FULFILLMENT_HANDLER\<close> occurs in the error's code or
  \<open>InvalidFulfillmentHandler\<close> occurs in its message, without regard to case, then
  \<open>createFulfillment\<close> sends exactly one more request, equal to \<open>req\<close> except that the
  handler code is \<open>manual-fulfillment\<close>, and returns what that retry gives: its exception,
  its fulfillment as a success, or its error as a failure with that error's message. For
  any other code and message nothing more is sent, and the failure carries the message of
  the first error.
\<close>

theorem createFulfillment_retry_once:
  assumes intro: "introspect_reply be w0 = (Inr intro, w1)"
    and req: "firstAttempt (case intro of None \<Rightarrow> [] | Some fs \<Rightarrow> fs) input = Some req"
    and first: "creationReply be req w1 = (Inr (FulfillmentError tn msg terr ec), w2)"
  shows "createFulfillment be input (w0, tr) =
     (if occursIgnoringCase ''INVALID_FULFILLMENT_HANDLER'' (case ec of None \<Rightarrow> [] | Some c \<Rightarrow> c)
         \<or> occursIgnoringCase ''InvalidFulfillmentHandler'' (case msg of None \<Rightarrow> [] | Some m \<Rightarrow> m)
      then (case creationReply be (withHandlerCode ''manual-fulfillment'' req) w2 of
              (r, w3) \<Rightarrow>
                (case r of
                   Inl e \<Rightarrow> Inl e
                 | Inr (FulfillmentSuccess fid st m) \<Rightarrow> Inr (CreateSuccess fid st m)
                 | Inr (FulfillmentError tn' msg' terr' ec') \<Rightarrow>
                     Inr (CreateFailure (errorText msg' terr')),
                 (w3, tr @ [GraphQL IntrospectMutations, GraphQL req,
                            GraphQL (withHandlerCode ''manual-fulfillment'' req)])))
      else (Inr (CreateFailure (errorText msg terr)),
            (w2, tr @ [GraphQL IntrospectMutations, GraphQL req])))"
proof -
  define names where "names = (case intro of None \<Rightarrow> [] | Some fs \<Rightarrow> fs)"
  have nm: "(case intro of None \<Rightarrow> [] | Some fs \<Rightarrow> fs) = names"
    by (simp add: names_def)
  from req have req': "firstAttempt names input = Some req"
    unfolding nm .
  show ?thesis
  proof (cases "''createFulfillment'' \<in> set names")
    case True
    with req' have r: "req = CreateFulfillmentReq
                  \<lparr> orderId_in = orderId input, lines_in = lines_arg input,
                    handlerCode_in = handlerCode input, method_in = method_arg input,
                    trackingCode_in = trackingCode_arg input, customFields_in = customFields input \<rparr>"
      by (simp add: firstAttempt_def)
    from first have "createFulfillment_reply be
                  \<lparr> orderId_in = orderId input, lines_in = lines_arg input,
                    handlerCode_in = handlerCode input, method_in = method_arg input,
                    trackingCode_in = trackingCode_arg input, customFields_in = customFields input \<rparr> w1
                = (Inr (FulfillmentError tn msg terr ec), w2)"
      by (simp add: r)
    from createFulfillment_modern [OF intro nm True this, of tr] show ?thesis
      by (simp add: r isInvalidHandler_def regex_test_i_iff)
  next
    case False
    with req' have leg: "''addFulfillmentToOrder'' \<in> set names"
      by (simp add: firstAttempt_def split: if_splits)
    with req' False have r: "req = AddFulfillmentToOrderReq
                  \<lparr> lines_leg = lines_arg input,
                    handler_leg = \<lparr> code_h = handlerCode input, arguments_h = handlerArgs input \<rparr>,
                    customFields_leg = customFields input \<rparr>"
      by (simp add: firstAttempt_def)
    from first have "addFulfillmentToOrder_reply be
                  \<lparr> lines_leg = lines_arg input,
                    handler_leg = \<lparr> code_h = handlerCode input, arguments_h = handlerArgs input \<rparr>,
                    customFields_leg = customFields input \<rparr> w1
                = (Inr (FulfillmentError tn msg terr ec), w2)"
      by (simp add: r)
    from createFulfillment_legacy [OF intro nm conjI [OF False leg] this, of tr] show ?thesis
      by (simp add: r isInvalidHandler_def regex_test_i_iff)
  qed
qed

theorem createFulfillment_retry_once_witness:
  "createFulfillment (backend_example [''addFulfillmentToOrder''] []) args_example (0, [])
     = (Inr (CreateSuccess ''F1'' ''Pending'' None),
        (3, [GraphQL IntrospectMutations,
             GraphQL (AddFulfillmentToOrderReq
               \<lparr> lines_leg = [\<lparr> orderLineId_in = ''L1'', quantity_in = 2 \<rparr>],
                 handler_leg = \<lparr> code_h = ''printify-handler'',
                                 arguments_h = [(''method'', ''Printify'')] \<rparr>,
                 customFields_leg = None \<rparr>),
             GraphQL (AddFulfillmentToOrderReq
               \<lparr> lines_leg = [\<lparr> orderLineId_in = ''L1'', quantity_in = 2 \<rparr>],
                 handler_leg = \<lparr> code_h = ''manual-fulfillment'',
                                 arguments_h = [(''method'', ''Printify'')] \<rparr>,
                 customFields_leg = None \<rparr>)]))
   \<and> createFulfillment
       (backend_scripted [''createFulfillment'']
          (FulfillmentError ''ErrorResult'' (Some ''invalidfulfillmenthandler: unknown code'') None None)
          (FulfillmentError ''OrderStateTransitionError'' (Some ''Cannot transition'')
             (Some ''Order is not settled'') (Some ''ORDER_STATE_TRANSITION_ERROR'')))
       args_example (0, [])
     = (Inr (CreateFailure (''Cannot transition'' @ [CHR 0x20, CHR 0xE2, CHR 0x80, CHR 0x94, CHR 0x20]
                             @ ''Order is not settled'')),
        (3, [GraphQL IntrospectMutations,
             GraphQL (CreateFulfillmentReq
               \<lparr> orderId_in = ''1'', lines_in = [\<lparr> orderLineId_in = ''L1'', quantity_in = 2 \<rparr>],
                 handlerCode_in = ''printify-handler'', method_in = Some ''Printify'',
                 trackingCode_in = None, customFields_in = None \<rparr>),
             GraphQL (CreateFulfillmentReq
               \<lparr> orderId_in = ''1'', lines_in = [\<lparr> orderLineId_in = ''L1'', quantity_in = 2 \<rparr>],
                 handlerCode_in = ''manual-fulfillment'', method_in = Some ''Printify'',
                 trackingCode_in = None, customFields_in = None \<rparr>)]))
   \<and> createFulfillment
       (backend_scripted [''createFulfillment'']
          (FulfillmentError ''InsufficientStockError'' (Some ''Not enough stock'') None
             (Some ''INSUFFICIENT_STOCK_ERROR''))
          (FulfillmentSuccess ''F1'' ''Pending'' None))
       args_example (0, [])
     = (Inr (CreateFailure ''Not enough stock''),
        (2, [GraphQL IntrospectMutations,
             GraphQL (CreateFulfillmentReq
               \<lparr> orderId_in = ''1'', lines_in = [\<lparr> orderLineId_in = ''L1'', quantity_in = 2 \<rparr>],
                 handlerCode_in = ''printify-handler'', method_in = Some ''Printify'',
                 trackingCode_in = None, customFields_in = None \<rparr>)]))"
proof -
  let ?leg = "AddFulfillmentToOrderReq
               \<lparr> lines_leg = [\<lparr> orderLineId_in = ''L1'', quantity_in = 2 \<rparr>],
                 handler_leg = \<lparr> code_h = ''printify-handler'',
                                 arguments_h = [(''method'', ''Printify'')] \<rparr>,
                 customFields_leg = None \<rparr>"
  let ?mod = "CreateFulfillmentReq
               \<lparr> orderId_in = ''1'', lines_in = [\<lparr> orderLineId_in = ''L1'', quantity_in = 2 \<rparr>],
                 handlerCode_in = ''printify-handler'', method_in = Some ''Printify'',
                 trackingCode_in = None, customFields_in = None \<rparr>"
  let ?e1 = "FulfillmentError ''ErrorResult'' (Some ''invalidfulfillmenthandler: unknown code'') None None"
  let ?e2 = "FulfillmentError ''OrderStateTransitionError'' (Some ''Cannot transition'')
             (Some ''Order is not settled'') (Some ''ORDER_STATE_TRANSITION_ERROR'')"
  let ?e3 = "FulfillmentError ''InsufficientStockError'' (Some ''Not enough stock'') None
             (Some ''INSUFFICIENT_STOCK_ERROR'')"
  let ?ok = "FulfillmentSuccess ''F1'' ''Pending'' None"
  let ?A = "backend_example [''addFulfillmentToOrder''] []"
  let ?B = "backend_scripted [''createFulfillment''] ?e1 ?e2"
  let ?C = "backend_scripted [''createFulfillment''] ?e3 ?ok"
  note ev = regex_test_i_iff [symmetric] regex_test_i_def toLowerCase_def toLowerCase_char_def
    errorText_def
  have a1: "introspect_reply ?A 0 = (Inr (Some [''addFulfillmentToOrder'']), 1)"
    by (simp add: backend_example_def)
  have a2: "firstAttempt (case Some [''addFulfillmentToOrder''] of None \<Rightarrow> [] | Some fs \<Rightarrow> fs)
              args_example = Some ?leg"
    by (simp add: firstAttempt_def args_example_def handlerArgs_def)
  have a3: "creationReply ?A ?leg 1
            = (Inr (FulfillmentError ''InvalidFulfillmentHandlerError''
                      (Some ''No FulfillmentHandler with the given code'') None
                      (Some ''INVALID_FULFILLMENT_HANDLER_ERROR'')), 2)"
    by (simp add: backend_example_def)
  have b1: "introspect_reply ?B 0 = (Inr (Some [''createFulfillment'']), 1)"
    by (simp add: backend_scripted_def backend_example_def)
  have c1: "introspect_reply ?C 0 = (Inr (Some [''createFulfillment'']), 1)"
    by (simp add: backend_scripted_def backend_example_def)
  have m2: "firstAttempt (case Some [''createFulfillment''] of None \<Rightarrow> [] | Some fs \<Rightarrow> fs)
              args_example = Some ?mod"
    by (simp add: firstAttempt_def args_example_def)
  have b3: "creationReply ?B ?mod 1
            = (Inr (FulfillmentError ''ErrorResult'' (Some ''invalidfulfillmenthandler: unknown code'')
                      None None), 2)"
    by (simp add: backend_scripted_def)
  have c3: "creationReply ?C ?mod 1
            = (Inr (FulfillmentError ''InsufficientStockError'' (Some ''Not enough stock'') None
                      (Some ''INSUFFICIENT_STOCK_ERROR'')), 2)"
    by (simp add: backend_scripted_def)
  from createFulfillment_retry_once [OF a1 a2 a3, of "[]"]
  have A: "createFulfillment ?A args_example (0, [])
     = (Inr (CreateSuccess ''F1'' ''Pending'' None),
        (3, [GraphQL IntrospectMutations, GraphQL ?leg,
             GraphQL (withHandlerCode ''manual-fulfillment'' ?leg)]))"
    by (simp add: ev backend_example_def)
  from createFulfillment_retry_once [OF b1 m2 b3, of "[]"]
  have B: "createFulfillment ?B args_example (0, [])
     = (Inr (CreateFailure (''Cannot transition'' @ [CHR 0x20, CHR 0xE2, CHR 0x80, CHR 0x94, CHR 0x20]
                             @ ''Order is not settled'')),
        (3, [GraphQL IntrospectMutations, GraphQL ?mod,
             GraphQL (withHandlerCode ''manual-fulfillment'' ?mod)]))"
    by (simp add: ev backend_scripted_def)
  from createFulfillment_retry_once [OF c1 m2 c3, of "[]"]
  have C: "createFulfillment ?C args_example (0, [])
     = (Inr (CreateFailure ''Not enough stock''),
        (2, [GraphQL IntrospectMutations, GraphQL ?mod]))"
    by (simp add: ev)
  from A B C show ?thesis
    by simp
qed

section \<open>Webhook reconciliation\<close>

lemmas client_defs = login_def fetchOrderByCode_def graphql_orderByCode_def toOrderSummary_def
  toOrderLineSummary_def transitionFulfillmentToState_def graphql_transition_def
  updateFulfillmentTracking_def graphql_updateTracking_def notify_def joinErrorParts_def

lemmas endpoint_defs = handler_005_def signatureGate_005_def hasBypass_005_def rawBody_005_def
  getHeader_def verifySignature_005_def handleAuthentic_005_def js_get_def PRINTIFY_EVENT_MAP_def
  object_prototype_names_def reconcile_005_def transitionFulfillments_def

lemmas library_defs = handlePrintifyWebhook_def handleVerified_002_def verifySignature_002_def
  bodyRaw_002_def signature_002_def normalizeEvent_def mapEventToState_def

subsection \<open>Order of the tracking update and the transition\<close>

text \<open>
  C3. The claim asks for the tracking update before the transition to \<open>Shipped\<close>. The
  webhook endpoint (part_005, \<open>transitionFulfillments\<close>) does the opposite: for the
  specification's example event, on an order with the fulfillment \<open>F1\<close>, it requests the
  transition first and updates the tracking afterwards.
\<close>

theorem endpoint_transitions_before_tracking:
  "handler_005 (backend_example [] [raw_order_fulfilled]) hmac_fixture
     (parse_as (body_shipment ''ORD123'') (payload_shipment ''ORD123''))
     (Inr config_example) (post (body_shipment ''ORD123'')) (0, [])
   = (Inr (\<lparr> status = 200, allow = None \<rparr>, SuccessBody False),
      (4, [Login ''admin'' ''pw'', GraphQL (OrderByCodeReq ''ORD123''),
           GraphQL (TransitionFulfillmentToStateReq ''F1'' (Some ''Shipped'')),
           GraphQL (UpdateFulfillmentTrackingReq ''F1'' (Some ''T1'') (Some ''DHL'')),
           Notify (WebhookProcessed False ''ORD123'' (Some ''F1'') (Some ''Shipped''))]))"
  by (simp add: endpoint_defs client_defs backend_example_def config_example_def post_def
      parse_as_def payload_shipment_def raw_order_fulfilled_def toLowerCase_def)

text \<open>
  The library function (part_002, \<open>handlePrintifyWebhook\<close>) has the order the claim
  states: tracking first, then the transition.
\<close>

lemma library_tracking_before_transition:
  "handlePrintifyWebhook (backend_example [] [raw_order_fulfilled]) (Some hmac_fixture)
     (parse_as (body_shipped ''ORD123'') (event_shipped ''ORD123''))
     (Inr config_example) (StringBody (body_shipped ''ORD123'')) Map.empty (0, [])
   = (Inr \<lparr> ok = True, message_res = None \<rparr>,
      (4, [Login ''admin'' ''pw'', GraphQL (OrderByCodeReq ''ORD123''),
           GraphQL (UpdateFulfillmentTrackingReq ''F1'' (Some ''T1'') (Some ''DHL'')),
           Notify (LibTrackingUpdated ''ORD123'' (Some ''T1'')),
           GraphQL (TransitionFulfillmentToStateReq ''F1'' (Some ''Shipped'')),
           Notify (LibTransitioned ''ORD123'' ''Shipped'')]))"
  by (simp add: library_defs client_defs backend_example_def config_example_def
      parse_as_def event_shipped_def raw_order_fulfilled_def toLowerCase_def toLowerCase_char_def
      body_shipped_def quoted_def Let_def)

subsection \<open>An order without fulfillments\<close>

text \<open>
  C6. Both handlers take the last fulfillment of the order and neither creates one. For
  an order without fulfillments the claim asks for an error outcome; the webhook endpoint
  (part_005) instead sends no mutation, reports the event as processed with no
  fulfillment id, and answers 200 with \<open>success: true\<close>.
\<close>

theorem endpoint_no_fulfillment_reports_success:
  "handler_005 (backend_example [] [raw_order_unfulfilled]) hmac_fixture
     (parse_as (body_shipment ''ORD124'') (payload_shipment ''ORD124''))
     (Inr config_example) (post (body_shipment ''ORD124'')) (0, [])
   = (Inr (\<lparr> status = 200, allow = None \<rparr>, SuccessBody False),
      (2, [Login ''admin'' ''pw'', GraphQL (OrderByCodeReq ''ORD124''),
           Notify (WebhookProcessed False ''ORD124'' None (Some ''Shipped''))]))"
  by (simp add: endpoint_defs client_defs backend_example_def config_example_def post_def
      parse_as_def payload_shipment_def raw_order_unfulfilled_def toLowerCase_def)

text \<open>The library function (part_002) reports the error the claim states.\<close>

lemma library_no_fulfillment_is_error:
  "handlePrintifyWebhook (backend_example [] [raw_order_unfulfilled]) (Some hmac_fixture)
     (parse_as (body_shipped ''ORD124'') (event_shipped ''ORD124''))
     (Inr config_example) (StringBody (body_shipped ''ORD124'')) Map.empty (0, [])
   = (Inr \<lparr> ok = False, message_res = Some ''No fulfillment found'' \<rparr>,
      (2, [Login ''admin'' ''pw'', GraphQL (OrderByCodeReq ''ORD124''),
           Notify (LibNoFulfillment ''ORD124'')]))"
  by (simp add: library_defs client_defs backend_example_def config_example_def
      parse_as_def event_shipped_def raw_order_unfulfilled_def toLowerCase_def toLowerCase_char_def
      body_shipped_def quoted_def Let_def)

text \<open>With at least one fulfillment, the endpoint's transition goes to the last one.\<close>

lemma transitionFulfillments_targets_last:
  assumes "fulfillments order \<noteq> []"
  shows "\<exists>rest. snd (snd (transitionFulfillments be order targetState tracking (w, tr))) =
           tr @ GraphQL (TransitionFulfillmentToStateReq (id_ful (last (fulfillments order))) targetState) # rest"
proof -
  obtain f fs where fs: "fulfillments order = f # fs"
    using assms by (cases "fulfillments order") auto
  obtain r w1 where tr1: "transition_reply be (id_ful (last (f # fs))) targetState w = (r, w1)"
    by (cases "transition_reply be (id_ful (last (f # fs))) targetState w")
  obtain r2 w2 where tr2: "updateTracking_reply be (id_ful (last (f # fs)))
      (tracking_number (the tracking)) (carrier (the tracking)) w1 = (r2, w2)"
    by (cases "updateTracking_reply be (id_ful (last (f # fs)))
      (tracking_number (the tracking)) (carrier (the tracking)) w1")
  show ?thesis
    unfolding transitionFulfillments_def fs
    by (cases r; cases r2)
       (simp_all add: Let_def transitionFulfillmentToState_def graphql_transition_def tr1
          updateFulfillmentTracking_def graphql_updateTracking_def tr2
          del: last.simps)
qed

subsection \<open>Signatures of the webhook endpoint\<close>




text \<open>The digest followed by characters that are not hexadecimal digits passes as well.\<close>

lemma padded_signature_passes:
  "verifySignature_005 hmac_fixture ''{}'' (Some ''whsec'')
     (Some ''ae6341ea7f40a435db57d903d02cba19085efb8a913f8cfbd8cff3d7df0c7a2dzz'') = Inr True"
  by (simp add: verifySignature_005_def hmac_fixture_def unhex_def)



subsection \<open>Events the endpoint does not know\<close>

text \<open>
  C7. The claim asks that an event which maps to no target state be ignored, with no
  mutation attempted. The endpoint (part_005) reads \<open>PRINTIFY_EVENT_MAP[payload.event]\<close>
  at line 140 and ignores the event when the value is falsy. The map is an object
  literal, so for the event \<open>constructor\<close>, which maps to no target state, the value read
  is the inherited member, which is truthy: the event is not ignored. On an order with the
  fulfillment \<open>F1\<close> the endpoint logs in, fetches the order and requests a transition of
  \<open>F1\<close>, to no state.
\<close>

theorem inherited_event_name_is_not_ignored:
  "handler_005 (backend_example [] [raw_order_fulfilled]) hmac_fixture
     (parse_as (body_inherited ''ORD123'') (payload_inherited ''ORD123''))
     (Inr config_example) (post (body_inherited ''ORD123'')) (0, [])
   = (Inr (\<lparr> status = 200, allow = None \<rparr>, SuccessBody False),
      (3, [Login ''admin'' ''pw'', GraphQL (OrderByCodeReq ''ORD123''),
           GraphQL (TransitionFulfillmentToStateReq ''F1'' None),
           Notify (WebhookProcessed False ''ORD123'' (Some ''F1'') None)]))"
  by (simp add: endpoint_defs client_defs backend_example_def config_example_def post_def
      parse_as_def payload_inherited_def raw_order_fulfilled_def toLowerCase_def)

text \<open>
  The library function (part_002) decides by \<open>mapEventToState\<close>, which knows no such
  name: for the same event it sends no transition and no tracking update.
\<close>

lemma library_sends_nothing_for_inherited_name:
  "mapEventToState (event_inherited ''ORD123'') = None
   \<and> handlePrintifyWebhook (backend_example [] [raw_order_fulfilled]) (Some hmac_fixture)
       (parse_as (body_inherited_flat ''ORD123'') (event_inherited ''ORD123''))
       (Inr config_example) (StringBody (body_inherited_flat ''ORD123'')) Map.empty (0, [])
     = (Inr \<lparr> ok = True, message_res = None \<rparr>,
        (2, [Login ''admin'' ''pw'', GraphQL (OrderByCodeReq ''ORD123'')]))"
  by (simp add: library_defs client_defs backend_example_def config_example_def
      parse_as_def event_inherited_def raw_order_fulfilled_def toLowerCase_def toLowerCase_char_def
      body_inherited_flat_def quoted_def Let_def)

text \<open>
  For an event that is neither a key of the map nor such an inherited name, the endpoint
  does what the claim says: whatever the request, it sends nothing (the trace gains at most
  the notice of a rejected signature), and a POST that passes the signature gate and
  carries a non-empty event and correlation id is answered 200 with \<open>ignored: true\<close>.
\<close>

lemma handleAuthentic_005_unknown_event:
  assumes "parse rawBody = Parsed payload" and "event payload = Some ev"
    and "PRINTIFY_EVENT_MAP ev = None" and "ev \<notin> set object_prototype_names"
  shows "snd (handleAuthentic_005 be parse config hasBypass rawBody s) = s"
  using assms by (simp add: handleAuthentic_005_def js_get_def)

lemma handler_005_unknown_event_sends_nothing:
  assumes "parse (rawBody_005 req) = Parsed payload" and "event payload = Some ev"
    and "PRINTIFY_EVENT_MAP ev = None" and "ev \<notin> set object_prototype_names"
  shows "snd (handler_005 be hmac parse loaded req s) = s
         \<or> snd (handler_005 be hmac parse loaded req s) = notify WebhookRejected s"
proof (cases "method_req req = Some ''POST''")
  case False
  then show ?thesis by (simp add: handler_005_def)
next
  case post: True
  show ?thesis
  proof (cases loaded)
    case (Inl e)
    with post show ?thesis by (simp add: handler_005_def)
  next
    case (Inr config)
    show ?thesis
    proof (cases "signatureGate_005 hmac config req")
      case (Inl e)
      with post Inr show ?thesis by (simp add: handler_005_def)
    next
      case gate: (Inr b)
      from handleAuthentic_005_unknown_event
        [where parse = parse and rawBody = "rawBody_005 req", OF assms,
         of be config "hasBypass_005 config req" s]
      show ?thesis
        using post Inr gate by (cases b) (auto simp: handler_005_def)
    qed
  qed
qed

lemma handler_005_unknown_event_ignored:
  assumes "method_req req = Some ''POST''"
    and "signatureGate_005 hmac config req = Inr True"
    and "parse (rawBody_005 req) = Parsed payload"
    and "event payload = Some ev" and "ev \<noteq> []"
    and "data_payload payload = Some d" and "external_id_data d = Some c" and "c \<noteq> []"
    and "PRINTIFY_EVENT_MAP ev = None"
    and "ev \<notin> set object_prototype_names"
  shows "handler_005 be hmac parse (Inr config) req s =
           (Inr (\<lparr> status = 200, allow = None \<rparr>, IgnoredBody), s)"
  using assms by (simp add: handler_005_def handleAuthentic_005_def js_get_def)

lemma handler_005_unknown_event_example:
  "handler_005 (backend_example [] [raw_order_fulfilled]) hmac_fixture
     (parse_as (body_unknown (Some ''ORD123'')) (payload_unknown (Some ''ORD123'')))
     (Inr config_example) (post (body_unknown (Some ''ORD123''))) (0, [])
   = (Inr (\<lparr> status = 200, allow = None \<rparr>, IgnoredBody), (0, []))"
  by (simp add: endpoint_defs client_defs backend_example_def config_example_def post_def
      parse_as_def payload_unknown_def toLowerCase_def)

text \<open>
  The checks of the request come before the lookup: an unknown event without a
  correlation id is answered 400.
\<close>

lemma unknown_event_without_id_is_error:
  "handler_005 (backend_example [] [raw_order_fulfilled]) hmac_fixture
     (parse_as (body_unknown None) (payload_unknown None))
     (Inr config_example) (post (body_unknown None)) (0, [])
   = (Inr (\<lparr> status = 400, allow = None \<rparr>, ErrorBody ''Missing event or external_id''), (0, []))"
  by (simp add: endpoint_defs client_defs backend_example_def config_example_def post_def
      parse_as_def payload_unknown_def toLowerCase_def)

subsection \<open>A body that is null\<close>

text \<open>
  Both handlers throw on the body \<open>null\<close> before they send anything: the endpoint when it
  reads \<open>payload.event\<close>, the library function in \<open>mapEventToState\<close>, ahead of the login.
\<close>

lemma endpoint_null_body_throws:
  "handler_005 (backend_example [] [raw_order_fulfilled]) hmac_fixture parse_null
     (Inr config_example) (post ''null'') (0, [])
   = (Inl (TypeError ''Cannot read properties of null''), (0, []))"
  by (simp add: endpoint_defs config_example_def post_def parse_null_def)

lemma library_null_body_throws:
  "handlePrintifyWebhook (backend_example [] [raw_order_fulfilled]) (Some hmac_fixture) parse_null
     (Inr config_example) (StringBody ''null'') Map.empty (0, [])
   = (Inl (TypeError ''Cannot read properties of null''), (0, []))"
  by (simp add: library_defs config_example_def parse_null_def)

subsection \<open>Signatures of the library function\<close>

text \<open>
  C10. In \<open>handlePrintifyWebhook\<close> (part_002), for every secret and every body, the
  signature verification returns true whenever the signature is missing or empty, or the
  raw body is missing or empty. So a request without a signature header (neither
  \<open>X-Printify-Signature\<close> nor \<open>x-printify-signature\<close>, or empty ones), or with an empty
  body, is not rejected: the function goes on to process it, whatever webhook secret is
  configured.
\<close>

theorem unsigned_webhook_accepted:
  "(\<not> (truthy signature \<and> truthy bodyRaw) \<longrightarrow> verifySignature_002 crypto secret bodyRaw signature)
   \<and> ((\<not> truthy (headers ''X-Printify-Signature'') \<and> \<not> truthy (headers ''x-printify-signature''))
        \<or> bodyRaw_002 body = [] \<longrightarrow>
       handlePrintifyWebhook be crypto parse (Inr cfg) body headers s =
         handleVerified_002 be parse cfg (bodyRaw_002 body) s)"
  by (auto simp: verifySignature_002_def handlePrintifyWebhook_def signature_002_def)

theorem unsigned_webhook_accepted_witness:
  "\<not> (truthy None \<and> truthy (Some ''{}''))
   \<and> verifySignature_002 (Some hmac_fixture) (Some ''whsec'') (Some ''{}'') None
   \<and> \<not> truthy (Map.empty ''X-Printify-Signature'') \<and> \<not> truthy (Map.empty ''x-printify-signature'')
   \<and> webhookSecret config_secrets = Some ''whsec''
   \<and> handlePrintifyWebhook (backend_example [] [raw_order_fulfilled]) (Some hmac_fixture)
        (parse_as (body_shipped ''ORD123'') (event_shipped ''ORD123''))
        (Inr config_secrets) (StringBody (body_shipped ''ORD123'')) Map.empty (0, [])
      = (Inr \<lparr> ok = True, message_res = None \<rparr>,
         (4, [Login ''admin'' ''pw'', GraphQL (OrderByCodeReq ''ORD123''),
              GraphQL (UpdateFulfillmentTrackingReq ''F1'' (Some ''T1'') (Some ''DHL'')),
              Notify (LibTrackingUpdated ''ORD123'' (Some ''T1'')),
              GraphQL (TransitionFulfillmentToStateReq ''F1'' (Some ''Shipped'')),
              Notify (LibTransitioned ''ORD123'' ''Shipped'')]))"
proof -
  have v: "handleVerified_002 (backend_example [] [raw_order_fulfilled])
             (parse_as (body_shipped ''ORD123'') (event_shipped ''ORD123''))
             config_secrets (bodyRaw_002 (StringBody (body_shipped ''ORD123''))) (0, [])
      = (Inr \<lparr> ok = True, message_res = None \<rparr>,
         (4, [Login ''admin'' ''pw'', GraphQL (OrderByCodeReq ''ORD123''),
              GraphQL (UpdateFulfillmentTrackingReq ''F1'' (Some ''T1'') (Some ''DHL'')),
              Notify (LibTrackingUpdated ''ORD123'' (Some ''T1'')),
              GraphQL (TransitionFulfillmentToStateReq ''F1'' (Some ''Shipped'')),
              Notify (LibTransitioned ''ORD123'' ''Shipped'')]))"
    by (simp add: library_defs client_defs backend_example_def config_example_def config_secrets_def
      parse_as_def event_shipped_def raw_order_fulfilled_def toLowerCase_def toLowerCase_char_def
      body_shipped_def quoted_def Let_def)
  have c: "webhookSecret config_secrets = Some ''whsec''"
    by (simp add: config_secrets_def)
  from unsigned_webhook_accepted [where signature = None and bodyRaw = "Some ''{}''"
      and crypto = "Some hmac_fixture" and secret = "Some ''whsec''" and headers = Map.empty
      and body = "StringBody (body_shipped ''ORD123'')"
      and be = "backend_example [] [raw_order_fulfilled]"
      and parse = "parse_as (body_shipped ''ORD123'') (event_shipped ''ORD123'')"
      and cfg = config_secrets and s = "(0, [])"] v c
  show ?thesis
    by simp
qed

section \<open>The batch job\<close>

lemmas job_defs = handler_004_def validateSecret_def processOrder_004_def sendToPrintify_004_def
  splitFullName_def fetchOrders_def graphql_orders_def supportsCreateFulfillment_def
  graphql_introspect_def printifyCreateOrder_def getOutstandingFulfillmentLines_def
  outstandingOrNull_def createFulfillment_def graphql_createFulfillment_def
  graphql_addFulfillmentToOrder_def STATES_TO_FULFILL_def

lemmas text_defs = trim_def splitWhitespace_def spaceLength_def whiteSpace_def regex_test_i_def toLowerCase_def
  toLowerCase_char_def isInvalidHandler_def

subsection \<open>Names\<close>

text \<open>
  White space outside ASCII separates and is trimmed like a space: a no-break space
  (U+00A0) between the names, an ideographic space (U+3000) in front.
\<close>

lemma splitFullName_no_break_space:
  "splitFullName (Some (''Jane'' @ [CHR 0xC2, CHR 0xA0] @ ''Doe'')) = (''Jane'', ''Doe'')"
  by (simp add: splitFullName_def text_defs)

lemma splitName_ideographic_space:
  "splitName (Some ([CHR 0xE3, CHR 0x80, CHR 0x80] @ ''Jane  van Doe '')) = (''Jane'', ''van Doe'')
   \<and> splitName (Some [CHR 0xE3, CHR 0x80, CHR 0x80]) = (''Customer'', [])"
  by (simp add: splitName_def text_defs)

subsection \<open>Partner line items\<close>

text \<open>
  C4. The claim has the lookup key fall back to the variant name when the SKU is absent.
  The builder of the batch endpoint (part_004) looks the empty string up instead: for an
  order whose outstanding line has no SKU and the variant name \<open>Blue mug\<close>, and a mapping
  table holding the key \<open>Blue mug\<close>, it fails with a missing-mapping error.
\<close>

theorem endpoint_builder_ignores_variant_name:
  "buildPrintifyLineItems_004
     (getOutstandingFulfillmentLines (toOrderSummary raw_order_no_sku)) mapping_by_name
   = Inl (Error (''Missing PRINTIFY_PRODUCT_MAPPING entry for SKU '' @ quoted []))"
  by (simp add: getOutstandingFulfillmentLines_def outstandingOrNull_def toOrderSummary_def
      toOrderLineSummary_def raw_order_no_sku_def mapping_by_name_def js_get_def
      object_prototype_names_def Let_def)

text \<open>The builder of the job (part_001) does fall back, and succeeds on the same input.\<close>

lemma job_builder_uses_variant_name:
  "buildPrintifyLineItems_001 (toOrderSummary raw_order_no_sku) mapping_by_name
   = Inr [\<lparr> productId = Some 11, variantId = Some 22, quantity_li = 2, metadata_li = None \<rparr>]"
  by (simp add: buildPrintifyLineItems_001_def getOutstandingFulfillmentLines_def
      outstandingOrNull_def toOrderSummary_def toOrderLineSummary_def raw_order_no_sku_def
      mapping_by_name_def js_get_def object_prototype_names_def Let_def)

text \<open>
  For the job's builder in general: it fails exactly when some outstanding line's key is
  empty or is read as \<open>undefined\<close> from the mapping object, and on success there is one
  item per outstanding line, in order, with the mapped ids and the outstanding quantity.
\<close>

lemma buildItems_001_fails_iff:
  "(\<exists>e. buildItems_001 mapping ls = Inl e) \<longleftrightarrow>
   (\<exists>l \<in> set ls. lookupKey l = [] \<or> js_get mapping (lookupKey l) = NoProperty)"
  by (induction ls) (auto simp: lookupKey_def Let_def split: js_prop.splits sum.splits)

lemma buildItems_001_success:
  "buildItems_001 mapping ls = Inr items \<Longrightarrow>
   items = map (\<lambda>l. \<lparr> productId = map_option productId_m (mapping (lookupKey l)),
                       variantId = map_option variantId_m (mapping (lookupKey l)),
                       quantity_li = quantity_out l, metadata_li = None \<rparr>) ls"
  by (induction ls arbitrary: items)
     (auto simp: lookupKey_def Let_def js_get_def
           split: js_prop.splits sum.splits option.splits if_splits)

subsection \<open>The placeholder email\<close>

text \<open>
  C9. The claim names the placeholder \<open>unknown@example.com\<close>. The batch endpoint
  (part_004) sends \<open>no-reply@example.com\<close> for an order without a customer: the request
  below is what the partner receives for the order \<open>ORD126\<close>.
\<close>

theorem endpoint_sends_other_placeholder:
  "handler_004 (backend_example [''createFulfillment''] [raw_order_sku]) printify_example
     (Inr config_printify) post_job (0, [])
   = ((\<lparr> status = 200, allow = None \<rparr>, SummaryBody 1 []),
      (7, [Notify JobStarting, Login ''admin'' ''pw'', GraphQL IntrospectMutations,
           GraphQL (OrdersToFulfillReq 20),
           PrintifyCreateOrder
             \<lparr> external_id = ''ORD126'', label = Some ''Vendure order ORD126'',
               line_items = [\<lparr> productId = Some 11, variantId = Some 22, quantity_li = 1,
                                metadata_li = Some [(''vendureOrderLineId'', ''L8''), (''sku'', ''MUG-11''),
                                                    (''variantName'', ''Mug 11oz'')] \<rparr>],
               shipping_method = None, send_shipping_notification = False,
               address_to = \<lparr> first_name = ''Jane'', last_name = ''Doe'',
                               email = ''no-reply@example.com'', phone = None, country = ''US'',
                               region = Some ''IL'', address1 = ''1 Main St'', address2 = None,
                               city_to = ''Springfield'', zip_to = ''62701'' \<rparr>,
               metadata = [(''vendureOrderId'', ''4''), (''vendureOrderCode'', ''ORD126'')] \<rparr>,
           Notify (JobPrintifyCreated ''ORD126'' ''P1'' ''pending''),
           GraphQL IntrospectMutations,
           GraphQL (CreateFulfillmentReq
             \<lparr> orderId_in = ''4'', lines_in = [\<lparr> orderLineId_in = ''L8'', quantity_in = 1 \<rparr>],
               handlerCode_in = ''printify-handler'', method_in = Some ''printify'',
               trackingCode_in = None, customFields_in = None \<rparr>),
           GraphQL (CreateFulfillmentReq
             \<lparr> orderId_in = ''4'', lines_in = [\<lparr> orderLineId_in = ''L8'', quantity_in = 1 \<rparr>],
               handlerCode_in = ''manual-fulfillment'', method_in = Some ''printify'',
               trackingCode_in = None, customFields_in = None \<rparr>),
           Notify (JobOrderFulfilled ''ORD126'' ''F1'' ''Pending''),
           Notify (JobCompleted 1 [])]))"
  by (simp add: job_defs client_defs text_defs backend_example_def config_printify_def
      config_example_def post_job_def raw_order_sku_def mapping_by_sku_def js_get_def
      printify_example_def address_example_def object_prototype_names_def Let_def)

text \<open>The job (part_001) sends the placeholder the claim names, for the same order.\<close>

lemma job_sends_documented_placeholder:
  "runFulfillOrders (backend_example [''createFulfillment''] [raw_order_sku]) printify_example
     (Inr config_printify) (0, [])
   = (Inr (),
      (6, [Login ''admin'' ''pw'', Notify RunStarting, GraphQL (OrdersToFulfillReq 20),
           Notify (RunCreatePrintify ''ORD126''),
           PrintifyCreateOrder
             \<lparr> external_id = ''ORD126'', label = Some ''Order ORD126'',
               line_items = [\<lparr> productId = Some 11, variantId = Some 22, quantity_li = 1,
                                metadata_li = None \<rparr>],
               shipping_method = None, send_shipping_notification = False,
               address_to = \<lparr> first_name = ''Jane'', last_name = ''Doe'',
                               email = ''unknown@example.com'', phone = Some [], country = ''US'',
                               region = Some ''IL'', address1 = ''1 Main St'', address2 = Some [],
                               city_to = ''Springfield'', zip_to = ''62701'' \<rparr>,
               metadata = [(''vendure_order_id'', ''4'')] \<rparr>,
           Notify (RunPrintifyCreated ''ORD126'' ''P1''),
           Notify (RunCreateVendure ''ORD126''),
           GraphQL IntrospectMutations,
           GraphQL (CreateFulfillmentReq
             \<lparr> orderId_in = ''4'', lines_in = [\<lparr> orderLineId_in = ''L8'', quantity_in = 1 \<rparr>],
               handlerCode_in = ''printify-handler'', method_in = Some ''Printify'',
               trackingCode_in = None, customFields_in = None \<rparr>),
           GraphQL (CreateFulfillmentReq
             \<lparr> orderId_in = ''4'', lines_in = [\<lparr> orderLineId_in = ''L8'', quantity_in = 1 \<rparr>],
               handlerCode_in = ''manual-fulfillment'', method_in = Some ''Printify'',
               trackingCode_in = None, customFields_in = None \<rparr>),
           Notify (RunVendureCreated ''ORD126'' ''F1'' ''Pending''),
           Notify RunCompleted]))"
  by (simp add: runFulfillOrders_def fulfillOrder_def sendToPrintify_001_def splitName_def
      buildPrintifyLineItems_001_def job_defs client_defs text_defs backend_example_def
      config_printify_def config_example_def raw_order_sku_def mapping_by_sku_def js_get_def
      printify_example_def address_example_def object_prototype_names_def Let_def)

subsection \<open>A backend without creation mutations\<close>

lemma processOrders_004_unsupported:
  assumes "\<not> dryRun config"
  shows "processOrders_004 be None config False orders totals (w, tr) =
     (totals \<lparr> failures := failures totals @ unsupportedFailures (actionable orders) \<rparr>,
      (w, tr @ map (\<lambda>ord. Notify (JobOrderSkipped (code ord))) (actionable orders)))"
  using assms
  by (induction orders arbitrary: totals tr)
     (simp_all add: processOrder_004_def Let_def notify_def actionable_def unsupportedFailures_def)

lemma createFulfillment_unsupported:
  assumes "introspect_reply be v0 = (Inr intro, v1)"
    and "''createFulfillment'' \<notin> set (case intro of None \<Rightarrow> [] | Some fs \<Rightarrow> fs)"
    and "''addFulfillmentToOrder'' \<notin> set (case intro of None \<Rightarrow> [] | Some fs \<Rightarrow> fs)"
  shows "createFulfillment be input (v0, tr) =
           (Inl (Error ''Vendure Admin API does not support fulfillment mutations''),
            (v1, tr @ [GraphQL IntrospectMutations]))"
proof -
  define names where "names = (case intro of None \<Rightarrow> [] | Some fs \<Rightarrow> fs)"
  have nm: "(case intro of None \<Rightarrow> [] | Some fs \<Rightarrow> fs) = names"
    by (simp add: names_def)
  from assms(2,3) have "''createFulfillment'' \<notin> set names" "''addFulfillmentToOrder'' \<notin> set names"
    unfolding nm by simp_all
  then show ?thesis
    by (simp add: createFulfillment_def graphql_introspect_def assms(1) nm)
qed

lemma handler_004_unsupported:
  assumes post: "method_job req = Some ''POST''"
    and sec: "validateSecret req (secret_job config)"
    and nodry: "\<not> dryRun config"
    and noprint: "\<not> enabled_printify config"
    and lg: "login_reply be (username config) (password config) w0 = (Inr (), w1)"
    and probe: "introspect_reply be w1 = (Inr intro, w2)"
    and n1: "''createFulfillment'' \<notin> set (case intro of None \<Rightarrow> [] | Some fs \<Rightarrow> fs)"
    and n2: "''addFulfillmentToOrder'' \<notin> set (case intro of None \<Rightarrow> [] | Some fs \<Rightarrow> fs)"
    and fetched: "orders_reply be (maxOrdersPerRun config) w2 = (Inr raws, w3)"
    and orders: "orders = filter (\<lambda>ord. state_order ord \<in> set STATES_TO_FULFILL)
                            (map toOrderSummary raws)"
    and some: "orders \<noteq> []"
  shows "handler_004 be printifyApi (Inr config) req (w0, tr) =
     ((\<lparr> status = 200, allow = None \<rparr>, SummaryBody 0 (unsupportedFailures (actionable orders))),
      (w3, tr @ [Notify JobStarting, Login (username config) (password config),
                 GraphQL IntrospectMutations, Notify JobUnsupported,
                 GraphQL (OrdersToFulfillReq (maxOrdersPerRun config))]
              @ map (\<lambda>ord. Notify (JobOrderSkipped (code ord))) (actionable orders)
              @ [Notify (JobCompleted 0 (unsupportedFailures (actionable orders)))]))"
proof -
  define names where "names = (case intro of None \<Rightarrow> [] | Some fs \<Rightarrow> fs)"
  have nm: "(case intro of None \<Rightarrow> [] | Some fs \<Rightarrow> fs) = names"
    by (simp add: names_def)
  from n1 n2 have nn: "''createFulfillment'' \<notin> set names" "''addFulfillmentToOrder'' \<notin> set names"
    unfolding nm by simp_all
  have sup: "supportsCreateFulfillment be (w1, tr') = (False, (w2, tr' @ [GraphQL IntrospectMutations]))"
    for tr'
    using nn by (simp add: supportsCreateFulfillment_def graphql_introspect_def probe nm)
  have fo: "fetchOrders be STATES_TO_FULFILL (maxOrdersPerRun config) (w2, tr')
            = (Inr orders, (w3, tr' @ [GraphQL (OrdersToFulfillReq (maxOrdersPerRun config))]))"
    for tr'
    by (simp add: fetchOrders_def graphql_orders_def fetched orders)
  show ?thesis
    using post sec noprint nodry some
    by (simp add: handler_004_def login_def lg notify_def sup fo
        processOrders_004_unsupported [OF nodry])
qed

text \<open>
  C8, as stated, fails: the condition is handled per order. Against a backend that exposes
  no creation mutation the batch endpoint runs to its end, records one failure for each of
  the two orders and answers 200.
\<close>

theorem endpoint_unsupported_backend_per_order:
  "handler_004 (backend_example [] [raw_order_unfulfilled, raw_order_sku]) printify_example
     (Inr config_example) post_job (0, [])
   = ((\<lparr> status = 200, allow = None \<rparr>,
       SummaryBody 0 [(''ORD124'', ''Vendure Admin API does not support createFulfillment''),
                      (''ORD126'', ''Vendure Admin API does not support createFulfillment'')]),
      (3, [Notify JobStarting, Login ''admin'' ''pw'', GraphQL IntrospectMutations,
           Notify JobUnsupported, GraphQL (OrdersToFulfillReq 20),
           Notify (JobOrderSkipped ''ORD124''), Notify (JobOrderSkipped ''ORD126''),
           Notify (JobCompleted 0
             [(''ORD124'', ''Vendure Admin API does not support createFulfillment''),
              (''ORD126'', ''Vendure Admin API does not support createFulfillment'')])]))"
  by (simp add: job_defs client_defs backend_example_def config_example_def post_job_def
      raw_order_sku_def raw_order_unfulfilled_def raw_line_def Let_def)

text \<open>
  The job (part_001) calls \<open>createFulfillment\<close> for each order; its exception is caught
  in the loop, reported for that order, and the next order is tried.
\<close>

lemma job_unsupported_backend_per_order:
  "runFulfillOrders (backend_example [] [raw_order_unfulfilled, raw_order_sku]) printify_example
     (Inr config_example) (0, [])
   = (Inr (),
      (4, [Login ''admin'' ''pw'', Notify RunStarting, GraphQL (OrdersToFulfillReq 20),
           Notify (RunCreateVendure ''ORD124''), GraphQL IntrospectMutations,
           Notify (RunOrderError ''ORD124'' ''Vendure Admin API does not support fulfillment mutations''),
           Notify (RunCreateVendure ''ORD126''), GraphQL IntrospectMutations,
           Notify (RunOrderError ''ORD126'' ''Vendure Admin API does not support fulfillment mutations''),
           Notify RunCompleted]))"
  by (simp add: runFulfillOrders_def fulfillOrder_def fetchOrders_def graphql_orders_def
      getOutstandingFulfillmentLines_def outstandingOrNull_def createFulfillment_def
      graphql_introspect_def client_defs backend_example_def
      config_example_def raw_order_sku_def raw_order_unfulfilled_def raw_line_def Let_def)

text \<open>
  C8, amended. When the probe succeeds and shows neither \<open>createFulfillment\<close> nor
  \<open>addFulfillmentToOrder\<close>, a call of \<open>createFulfillment\<close> fails at once, having sent
  nothing but the probe, with the error \<open>Vendure Admin API does not support fulfillment
  mutations\<close>. The failure is handled per order: the batch endpoint, with the partner
  integration off and no dry run, probes once after the login, and then records for every
  fetched order with outstanding lines a failure of its own, goes on to the next order, and
  ends the run with the status 200 and the list of these failures, without sending any
  creation request.
\<close>

theorem unsupported_backend_handled_per_order:
  "(introspect_reply be v0 = (Inr intro, v1)
    \<and> ''createFulfillment'' \<notin> set (case intro of None \<Rightarrow> [] | Some fs \<Rightarrow> fs)
    \<and> ''addFulfillmentToOrder'' \<notin> set (case intro of None \<Rightarrow> [] | Some fs \<Rightarrow> fs)
    \<longrightarrow> createFulfillment be input (v0, tr) =
          (Inl (Error ''Vendure Admin API does not support fulfillment mutations''),
           (v1, tr @ [GraphQL IntrospectMutations])))
   \<and> (method_job req = Some ''POST'' \<and> validateSecret req (secret_job config)
      \<and> \<not> dryRun config \<and> \<not> enabled_printify config
      \<and> login_reply be (username config) (password config) w0 = (Inr (), w1)
      \<and> introspect_reply be w1 = (Inr intro', w2)
      \<and> ''createFulfillment'' \<notin> set (case intro' of None \<Rightarrow> [] | Some fs \<Rightarrow> fs)
      \<and> ''addFulfillmentToOrder'' \<notin> set (case intro' of None \<Rightarrow> [] | Some fs \<Rightarrow> fs)
      \<and> orders_reply be (maxOrdersPerRun config) w2 = (Inr raws, w3)
      \<and> orders = filter (\<lambda>ord. state_order ord \<in> set STATES_TO_FULFILL) (map toOrderSummary raws)
      \<and> orders \<noteq> []
      \<longrightarrow> handler_004 be printifyApi (Inr config) req (w0, tr') =
            ((\<lparr> status = 200, allow = None \<rparr>, SummaryBody 0 (unsupportedFailures (actionable orders))),
             (w3, tr' @ [Notify JobStarting, Login (username config) (password config),
                         GraphQL IntrospectMutations, Notify JobUnsupported,
                         GraphQL (OrdersToFulfillReq (maxOrdersPerRun config))]
                      @ map (\<lambda>ord. Notify (JobOrderSkipped (code ord))) (actionable orders)
                      @ [Notify (JobCompleted 0 (unsupportedFailures (actionable orders)))])))"
proof (intro conjI impI)
  assume "introspect_reply be v0 = (Inr intro, v1)
    \<and> ''createFulfillment'' \<notin> set (case intro of None \<Rightarrow> [] | Some fs \<Rightarrow> fs)
    \<and> ''addFulfillmentToOrder'' \<notin> set (case intro of None \<Rightarrow> [] | Some fs \<Rightarrow> fs)"
  then show "createFulfillment be input (v0, tr) =
          (Inl (Error ''Vendure Admin API does not support fulfillment mutations''),
           (v1, tr @ [GraphQL IntrospectMutations]))"
    using createFulfillment_unsupported [of be v0 intro v1 input tr] by blast
next
  assume a: "method_job req = Some ''POST'' \<and> validateSecret req (secret_job config)
      \<and> \<not> dryRun config \<and> \<not> enabled_printify config
      \<and> login_reply be (username config) (password config) w0 = (Inr (), w1)
      \<and> introspect_reply be w1 = (Inr intro', w2)
      \<and> ''createFulfillment'' \<notin> set (case intro' of None \<Rightarrow> [] | Some fs \<Rightarrow> fs)
      \<and> ''addFulfillmentToOrder'' \<notin> set (case intro' of None \<Rightarrow> [] | Some fs \<Rightarrow> fs)
      \<and> orders_reply be (maxOrdersPerRun config) w2 = (Inr raws, w3)
      \<and> orders = filter (\<lambda>ord. state_order ord \<in> set STATES_TO_FULFILL) (map toOrderSummary raws)
      \<and> orders \<noteq> []"
  show "handler_004 be printifyApi (Inr config) req (w0, tr') =
            ((\<lparr> status = 200, allow = None \<rparr>, SummaryBody 0 (unsupportedFailures (actionable orders))),
             (w3, tr' @ [Notify JobStarting, Login (username config) (password config),
                         GraphQL IntrospectMutations, Notify JobUnsupported,
                         GraphQL (OrdersToFulfillReq (maxOrdersPerRun config))]
                      @ map (\<lambda>ord. Notify (JobOrderSkipped (code ord))) (actionable orders)
                      @ [Notify (JobCompleted 0 (unsupportedFailures (actionable orders)))]))"
    by (rule handler_004_unsupported [where intro = intro' and raws = raws and ?w1.0 = w1 and ?w2.0 = w2])
       (use a in blast)+
qed

theorem unsupported_backend_handled_per_order_witness:
  "introspect_reply (backend_example [] [raw_order_unfulfilled, raw_order_fulfilled, raw_order_sku]) 0
      = (Inr (Some []), 1)
   \<and> createFulfillment (backend_example [] [raw_order_unfulfilled, raw_order_fulfilled, raw_order_sku])
        args_example (0, [])
      = (Inl (Error ''Vendure Admin API does not support fulfillment mutations''),
         (1, [GraphQL IntrospectMutations]))
   \<and> validateSecret post_job (secret_job config_example)
   \<and> \<not> dryRun config_example \<and> \<not> enabled_printify config_example
   \<and> handler_004 (backend_example [] [raw_order_unfulfilled, raw_order_fulfilled, raw_order_sku])
        printify_example (Inr config_example) post_job (0, [])
      = ((\<lparr> status = 200, allow = None \<rparr>,
          SummaryBody 0 [(''ORD124'', ''Vendure Admin API does not support createFulfillment''),
                         (''ORD126'', ''Vendure Admin API does not support createFulfillment'')]),
         (3, [Notify JobStarting, Login ''admin'' ''pw'', GraphQL IntrospectMutations,
              Notify JobUnsupported, GraphQL (OrdersToFulfillReq 20),
              Notify (JobOrderSkipped ''ORD124''), Notify (JobOrderSkipped ''ORD126''),
              Notify (JobCompleted 0
                [(''ORD124'', ''Vendure Admin API does not support createFulfillment''),
                 (''ORD126'', ''Vendure Admin API does not support createFulfillment'')])]))"
proof -
  let ?be = "backend_example [] [raw_order_unfulfilled, raw_order_fulfilled, raw_order_sku]"
  let ?orders = "[toOrderSummary raw_order_unfulfilled, toOrderSummary raw_order_sku]"
  have p0: "introspect_reply ?be 0 = (Inr (Some []), 1)"
    by (simp add: backend_example_def)
  have p1: "introspect_reply ?be 1 = (Inr (Some []), 2)"
    by (simp add: backend_example_def)
  have n1: "''createFulfillment'' \<notin> set (case Some [] of None \<Rightarrow> [] | Some fs \<Rightarrow> fs)"
    by simp
  have n2: "''addFulfillmentToOrder'' \<notin> set (case Some [] of None \<Rightarrow> [] | Some fs \<Rightarrow> fs)"
    by simp
  have l: "login_reply ?be (username config_example) (password config_example) 0 = (Inr (), 1)"
    by (simp add: backend_example_def)
  have f: "orders_reply ?be (maxOrdersPerRun config_example) 2
           = (Inr [raw_order_unfulfilled, raw_order_fulfilled, raw_order_sku], 3)"
    by (simp add: backend_example_def config_example_def)
  have o: "?orders = filter (\<lambda>ord. state_order ord \<in> set STATES_TO_FULFILL)
             (map toOrderSummary [raw_order_unfulfilled, raw_order_fulfilled, raw_order_sku])"
    by (simp add: STATES_TO_FULFILL_def toOrderSummary_def raw_order_unfulfilled_def
        raw_order_fulfilled_def raw_order_sku_def)
  have ne: "?orders \<noteq> []"
    by simp
  have c1: "method_job post_job = Some ''POST''"
    by (simp add: post_job_def)
  have c2: "validateSecret post_job (secret_job config_example)"
    by (simp add: validateSecret_def config_example_def)
  have c3: "\<not> dryRun config_example"
    by (simp add: config_example_def)
  have c4: "\<not> enabled_printify config_example"
    by (simp add: config_example_def)
  have c5: "username config_example = ''admin''" "password config_example = ''pw''"
    "maxOrdersPerRun config_example = 20"
    by (simp_all add: config_example_def)
  have a: "actionable ?orders = ?orders"
    by (simp add: actionable_def getOutstandingFulfillmentLines_def outstandingOrNull_def
        toOrderSummary_def toOrderLineSummary_def raw_order_unfulfilled_def raw_order_sku_def
        raw_line_def Let_def)
  have cd: "map code ?orders = [''ORD124'', ''ORD126'']"
    by (simp add: toOrderSummary_def raw_order_unfulfilled_def raw_order_sku_def)
  note w = unsupported_backend_handled_per_order
    [where be = ?be and ?v0.0 = 0 and intro = "Some []" and ?v1.0 = 1 and input = args_example
       and tr = "[]" and req = post_job and config = config_example and ?w0.0 = 0 and ?w1.0 = 1
       and intro' = "Some []" and ?w2.0 = 2
       and raws = "[raw_order_unfulfilled, raw_order_fulfilled, raw_order_sku]" and ?w3.0 = 3
       and orders = ?orders and printifyApi = printify_example and tr' = "[]"]
  have r1: "createFulfillment ?be args_example (0, [])
      = (Inl (Error ''Vendure Admin API does not support fulfillment mutations''),
         (1, [] @ [GraphQL IntrospectMutations]))"
    by (rule w [THEN conjunct1, rule_format]) (intro conjI p0 n1 n2)
  have r2: "handler_004 ?be printify_example (Inr config_example) post_job (0, [])
      = ((\<lparr> status = 200, allow = None \<rparr>, SummaryBody 0 (unsupportedFailures (actionable ?orders))),
         (3, [] @ [Notify JobStarting, Login (username config_example) (password config_example),
                   GraphQL IntrospectMutations, Notify JobUnsupported,
                   GraphQL (OrdersToFulfillReq (maxOrdersPerRun config_example))]
                @ map (\<lambda>ord. Notify (JobOrderSkipped (code ord))) (actionable ?orders)
                @ [Notify (JobCompleted 0 (unsupportedFailures (actionable ?orders)))]))"
    by (rule w [THEN conjunct2, rule_format]) (intro conjI c1 c2 c3 c4 l p1 n1 n2 f o ne)
  have u: "unsupportedFailures ?orders =
             [(''ORD124'', ''Vendure Admin API does not support createFulfillment''),
              (''ORD126'', ''Vendure Admin API does not support createFulfillment'')]"
    using cd by (simp add: unsupportedFailures_def)
  have n: "map (\<lambda>ord. Notify (JobOrderSkipped (code ord))) ?orders
           = [Notify (JobOrderSkipped ''ORD124''), Notify (JobOrderSkipped ''ORD126'')]"
    using cd by simp
  show ?thesis
    unfolding r1 r2 a u n c5 using p0 c2 c3 c4 by simp
qed

end
